theory Spec2Isabelle
  imports
    Complex_Main
    "HOL-Library.AList"
    "HOL-Library.Char_ord"
    "HOL-Library.List_Lexorder"
    "HOL-Library.Word"
begin

section \<open>Python values\<close>

text \<open>
  The trace model stores free-form data (\<^verbatim>\<open>Dict[str, Any]\<close>). Such values are modelled
  by a JSON-like datatype. A \<^verbatim>\<open>dict\<close> is an association list in insertion order with
  string keys; \<^verbatim>\<open>AList.update\<close> replaces the value of a present key in place and
  appends an absent key at the end, which is what assignment \<^verbatim>\<open>d[k] = v\<close> does.
  A \<^verbatim>\<open>float\<close> inside such data is given by the rational number it denotes; the
  code only tests it for truth and compares it with an integer, which is exact.
\<close>

datatype pyval =
    PNone
  | PBool bool
  | PInt int
  | PFloat rat
  | PStr string
  | PList "pyval list"
  | PDict "(string \<times> pyval) list"

type_synonym pydict = "(string \<times> pyval) list"

text \<open>Truth value testing, as \<^verbatim>\<open>bool(v)\<close>, \<^verbatim>\<open>if v:\<close> and \<^verbatim>\<open>not v\<close> do it.\<close>

fun truthy :: "pyval \<Rightarrow> bool" where
  "truthy PNone = False"
| "truthy (PBool b) = b"
| "truthy (PInt i) = (i \<noteq> 0)"
| "truthy (PFloat r) = (r \<noteq> 0)"
| "truthy (PStr s) = (s \<noteq> [])"
| "truthy (PList xs) = (xs \<noteq> [])"
| "truthy (PDict kvs) = (kvs \<noteq> [])"

text \<open>\<^verbatim>\<open>d.get(k)\<close> and \<^verbatim>\<open>d.get(k, default)\<close>.\<close>

definition dict_get :: "pydict \<Rightarrow> string \<Rightarrow> pyval" where
  "dict_get d k = (case map_of d k of None \<Rightarrow> PNone | Some v \<Rightarrow> v)"

definition dict_get_default :: "pydict \<Rightarrow> string \<Rightarrow> pyval \<Rightarrow> pyval" where
  "dict_get_default d k dflt = (case map_of d k of None \<Rightarrow> dflt | Some v \<Rightarrow> v)"


section \<open>The trace data model (src/tracing/context.py)\<close>

text \<open>
  The dataclasses \<^verbatim>\<open>Decision\<close>, \<^verbatim>\<open>StageTrace\<close> and \<^verbatim>\<open>Trace\<close>. The fields of
  \<^verbatim>\<open>StageTrace\<close> carry the prefix \<^verbatim>\<open>stage_\<close> because several of them share their
  name with a field of \<^verbatim>\<open>Trace\<close>. Wall-clock timestamps are the ISO strings the code
  stores; readings of \<^verbatim>\<open>time.monotonic()\<close> are rationals.
\<close>

record Decision =
  decision :: string
  what :: pyval
  why :: pyval
  confidence :: pyval
  alternatives_considered :: pyval
  inputs :: pyval
  timestamp :: string

record StageTrace =
  stage_name :: string
  stage_started_at :: "string option"
  stage_completed_at :: "string option"
  stage_duration_seconds :: "rat option"
  stage_decisions :: "Decision list"
  stage_outputs :: pydict
  stage_evidence :: pydict
  stage_prompts :: "(string \<times> string) list"
  stage_error :: "string option"

text \<open>
  \<^verbatim>\<open>_NoOpTrace\<close> is a subclass of \<^verbatim>\<open>Trace\<close> with the same fields; the field \<open>cls\<close>
  is the class of the object, which method dispatch and \<^verbatim>\<open>isinstance\<close> read.
\<close>

datatype trace_class = TraceClass | NoOpTraceClass

record Trace =
  cls :: trace_class
  trace_id :: string
  project_id :: "string option"
  project_name :: "string option"
  query :: "string option"
  intent :: "string option"
  domain :: "string option"
  report_type :: "string option"
  research_type :: "string option"
  started_at :: "string option"
  completed_at :: "string option"
  duration_seconds :: "rat option"
  status :: string
  stages :: "(string \<times> StageTrace) list"
  iterations :: "pydict list"
  iteration_count :: int
  quality_gate_failures :: int
  outputs :: pydict
  child_traces :: "pydict list"
  start_time :: rat
  stage_start_times :: "(string \<times> rat) list"

text \<open>\<^verbatim>\<open>StageTrace(name=..., started_at=...)\<close> with the dataclass defaults.\<close>

definition StageTrace_init :: "string \<Rightarrow> string option \<Rightarrow> StageTrace" where
  "StageTrace_init n started =
     \<lparr> stage_name = n, stage_started_at = started, stage_completed_at = None,
       stage_duration_seconds = None, stage_decisions = [], stage_outputs = [],
       stage_evidence = [], stage_prompts = [], stage_error = None \<rparr>"

text \<open>\<^verbatim>\<open>Trace(trace_id=...)\<close> with the dataclass defaults.\<close>

definition Trace_init :: "string \<Rightarrow> Trace" where
  "Trace_init tid =
     \<lparr> cls = TraceClass, trace_id = tid, project_id = None, project_name = None,
       query = None, intent = None, domain = None, report_type = None,
       research_type = None, started_at = None, completed_at = None,
       duration_seconds = None, status = ''in_progress'', stages = [],
       iterations = [], iteration_count = 1, quality_gate_failures = 0,
       outputs = [], child_traces = [], start_time = 0, stage_start_times = [] \<rparr>"

text \<open>\<^verbatim>\<open>_NoOpTrace()\<close>: \<^verbatim>\<open>super().__init__(trace_id="noop", status="disabled")\<close>.\<close>

definition NoOpTrace_init :: Trace where
  "NoOpTrace_init = (Trace_init ''noop'') \<lparr> cls := NoOpTraceClass, status := ''disabled'' \<rparr>"


subsection \<open>Recording methods of class Trace\<close>

text \<open>
  Every method that reads a clock takes the readings as arguments: \<open>now\<close> is
  \<^verbatim>\<open>datetime.now(timezone.utc).isoformat()\<close> and \<open>mnow\<close> is \<^verbatim>\<open>time.monotonic()\<close>.
  The methods mutate the object; the model returns the updated trace. Logging is
  not part of the state.
\<close>

definition Trace_start_stage :: "string \<Rightarrow> rat \<Rightarrow> string \<Rightarrow> Trace \<Rightarrow> Trace" where
  "Trace_start_stage now mnow sn t =
     t \<lparr> stages := AList.update sn (StageTrace_init sn (Some now)) (stages t),
         stage_start_times := AList.update sn mnow (stage_start_times t) \<rparr>"

definition Trace_end_stage ::
  "string \<Rightarrow> rat \<Rightarrow> string \<Rightarrow> pydict option \<Rightarrow> string option \<Rightarrow> Trace \<Rightarrow> Trace" where
  "Trace_end_stage now mnow sn outs err t =
     (case map_of (stages t) sn of
        None \<Rightarrow> t
      | Some stage \<Rightarrow>
          let s1 = stage \<lparr> stage_completed_at := Some now \<rparr>;
              s2 = (case map_of (stage_start_times t) sn of
                      Some m0 \<Rightarrow> s1 \<lparr> stage_duration_seconds := Some (mnow - m0) \<rparr>
                    | None \<Rightarrow> s1);
              s3 = (case outs of
                      Some d \<Rightarrow> if d \<noteq> [] then s2 \<lparr> stage_outputs := d \<rparr> else s2
                    | None \<Rightarrow> s2);
              s4 = (case err of
                      Some e \<Rightarrow> if e \<noteq> [] then s3 \<lparr> stage_error := Some e \<rparr> else s3
                    | None \<Rightarrow> s3)
          in t \<lparr> stages := AList.update sn s4 (stages t) \<rparr>)"

text \<open>
  \<^verbatim>\<open>record\<close>, \<^verbatim>\<open>record_evidence\<close> and \<^verbatim>\<open>record_prompts\<close> create the stage when the
  name is not a key of \<^verbatim>\<open>stages\<close> (appended at the end of the dict) and then change
  the stage in place.
\<close>

definition stage_or_new :: "Trace \<Rightarrow> string \<Rightarrow> StageTrace" where
  "stage_or_new t sn =
     (case map_of (stages t) sn of None \<Rightarrow> StageTrace_init sn None | Some s \<Rightarrow> s)"

definition Decision_of :: "string \<Rightarrow> string \<Rightarrow> pydict \<Rightarrow> Decision" where
  "Decision_of now decision_type data =
     \<lparr> decision = decision_type,
       what = dict_get data ''what'',
       why = dict_get_default data ''why'' (PStr ''''),
       confidence = dict_get_default data ''confidence'' (PFloat 1),
       alternatives_considered = dict_get_default data ''alternatives_considered'' (PList []),
       inputs = dict_get_default data ''inputs'' (PDict []),
       timestamp = now \<rparr>"

definition Trace_record :: "string \<Rightarrow> string \<Rightarrow> string \<Rightarrow> pydict \<Rightarrow> Trace \<Rightarrow> Trace" where
  "Trace_record now sn decision_type data t =
     (let s = stage_or_new t sn;
          d = Decision_of now decision_type data
      in t \<lparr> stages := AList.update sn (s \<lparr> stage_decisions := stage_decisions s @ [d] \<rparr>)
                          (stages t) \<rparr>)"

definition Trace_record_evidence :: "string \<Rightarrow> pydict \<Rightarrow> Trace \<Rightarrow> Trace" where
  "Trace_record_evidence sn evidence_data t =
     t \<lparr> stages := AList.update sn ((stage_or_new t sn) \<lparr> stage_evidence := evidence_data \<rparr>)
                     (stages t) \<rparr>"

definition Trace_record_prompts :: "string \<Rightarrow> (string \<times> string) list \<Rightarrow> Trace \<Rightarrow> Trace" where
  "Trace_record_prompts sn ps t =
     t \<lparr> stages := AList.update sn ((stage_or_new t sn) \<lparr> stage_prompts := ps \<rparr>)
                     (stages t) \<rparr>"

text \<open>The pass flag of an iteration record: \<^verbatim>\<open>iteration_data.get("passed", True)\<close>.\<close>

definition pass_flag :: "pydict \<Rightarrow> pyval" where
  "pass_flag iteration_data = dict_get_default iteration_data ''passed'' (PBool True)"

definition Trace_record_iteration :: "pydict \<Rightarrow> Trace \<Rightarrow> Trace" where
  "Trace_record_iteration iteration_data t =
     (let its = iterations t @ [iteration_data]
      in t \<lparr> iterations := its,
             iteration_count := int (length its),
             quality_gate_failures :=
               (if \<not> truthy (pass_flag iteration_data)
                then quality_gate_failures t + 1 else quality_gate_failures t) \<rparr>)"

definition Trace_set_outputs :: "pydict \<Rightarrow> Trace \<Rightarrow> Trace" where
  "Trace_set_outputs outs t = t \<lparr> outputs := outs \<rparr>"

text \<open>
  The three terminal calls share their timing code: the duration is computed only
  when \<^verbatim>\<open>_start_time\<close> is truthy (non-zero).
\<close>

definition stamp_end :: "string \<Rightarrow> string \<Rightarrow> rat \<Rightarrow> Trace \<Rightarrow> Trace" where
  "stamp_end st now mnow t =
     t \<lparr> status := st, completed_at := Some now,
         duration_seconds :=
           (if start_time t \<noteq> 0 then Some (mnow - start_time t) else duration_seconds t) \<rparr>"

definition Trace_mark_complete :: "string \<Rightarrow> rat \<Rightarrow> Trace \<Rightarrow> Trace" where
  "Trace_mark_complete now mnow t = stamp_end ''complete'' now mnow t"

definition Trace_mark_failed :: "string \<Rightarrow> rat \<Rightarrow> string \<Rightarrow> Trace \<Rightarrow> Trace" where
  "Trace_mark_failed now mnow err t =
     (let t1 = stamp_end ''failed'' now mnow t
      in t1 \<lparr> outputs := AList.update ''error'' (PStr err) (outputs t1) \<rparr>)"

definition Trace_mark_incomplete :: "string \<Rightarrow> rat \<Rightarrow> Trace \<Rightarrow> Trace" where
  "Trace_mark_incomplete now mnow t = stamp_end ''incomplete'' now mnow t"


subsection \<open>The recording API with method dispatch\<close>

text \<open>
  One call of the recording API. \<^verbatim>\<open>_NoOpTrace\<close> overrides every one of these methods
  with \<^verbatim>\<open>pass\<close>; any other object runs the method of \<^verbatim>\<open>Trace\<close>. The two clock
  readings are those the method would take if it reads the clocks.
\<close>

datatype call =
    StartStage string
  | EndStage string "pydict option" "string option"
  | Record string string pydict
  | RecordEvidence string pydict
  | RecordPrompts string "(string \<times> string) list"
  | RecordIteration pydict
  | SetOutputs pydict
  | MarkComplete
  | MarkFailed string
  | MarkIncomplete

fun Trace_call :: "string \<Rightarrow> rat \<Rightarrow> call \<Rightarrow> Trace \<Rightarrow> Trace" where
  "Trace_call now mnow (StartStage sn) t = Trace_start_stage now mnow sn t"
| "Trace_call now mnow (EndStage sn outs err) t = Trace_end_stage now mnow sn outs err t"
| "Trace_call now mnow (Record sn dt data) t = Trace_record now sn dt data t"
| "Trace_call now mnow (RecordEvidence sn ev) t = Trace_record_evidence sn ev t"
| "Trace_call now mnow (RecordPrompts sn ps) t = Trace_record_prompts sn ps t"
| "Trace_call now mnow (RecordIteration d) t = Trace_record_iteration d t"
| "Trace_call now mnow (SetOutputs outs) t = Trace_set_outputs outs t"
| "Trace_call now mnow MarkComplete t = Trace_mark_complete now mnow t"
| "Trace_call now mnow (MarkFailed err) t = Trace_mark_failed now mnow err t"
| "Trace_call now mnow MarkIncomplete t = Trace_mark_incomplete now mnow t"

definition do_call :: "string \<times> rat \<times> call \<Rightarrow> Trace \<Rightarrow> Trace" where
  "do_call c t =
     (case c of (now, mnow, k) \<Rightarrow>
        if cls t = NoOpTraceClass then t else Trace_call now mnow k t)"

text \<open>A sequence of calls, each with the clock readings at the time of the call.\<close>

definition do_calls :: "(string \<times> rat \<times> call) list \<Rightarrow> Trace \<Rightarrow> Trace" where
  "do_calls cs t = fold do_call cs t"

text \<open>The iteration records passed to \<^verbatim>\<open>record_iteration\<close> in a call sequence, in order.\<close>

fun iteration_args :: "(string \<times> rat \<times> call) list \<Rightarrow> pydict list" where
  "iteration_args [] = []"
| "iteration_args ((now, mnow, RecordIteration d) # cs) = d # iteration_args cs"
| "iteration_args (c # cs) = iteration_args cs"


section \<open>Exceptions\<close>

text \<open>
  An exception is its class name and its message (\<^verbatim>\<open>str(e)\<close>). Every exception of
  the model is an instance of \<^verbatim>\<open>Exception\<close>, the class the handlers of this code
  catch; \<^verbatim>\<open>KeyboardInterrupt\<close>, \<^verbatim>\<open>SystemExit\<close> and task cancellation are not modelled.
\<close>

datatype exn = Exn (exn_class: string) (exn_msg: string)

definition TypeError :: exn where
  "TypeError = Exn ''TypeError'' ''unsupported operand''"

definition AttributeError :: exn where
  "AttributeError = Exn ''AttributeError'' ''object has no attribute append''"


section \<open>Operators on Python values\<close>

text \<open>The numeric value of \<^verbatim>\<open>bool\<close>, \<^verbatim>\<open>int\<close> and \<^verbatim>\<open>float\<close> objects.\<close>

fun py_num :: "pyval \<Rightarrow> rat option" where
  "py_num (PBool b) = Some (if b then 1 else 0)"
| "py_num (PInt i) = Some (of_int i)"
| "py_num (PFloat r) = Some r"
| "py_num v = None"

text \<open>
  \<^verbatim>\<open>v < 2\<close>: numbers compare by value; for \<^verbatim>\<open>None\<close>, strings, lists and dicts the
  comparison with an \<^verbatim>\<open>int\<close> raises \<^verbatim>\<open>TypeError\<close>.
\<close>

definition py_lt2 :: "pyval \<Rightarrow> exn + bool" where
  "py_lt2 v = (case py_num v of Some r \<Rightarrow> Inr (r < 2) | None \<Rightarrow> Inl TypeError)"

text \<open>
  \<^verbatim>\<open>a == b\<close>: numbers are equal across the numeric types, lists are equal
  elementwise, dicts are equal when they have the same keys with equal values.
\<close>

fun py_eq :: "pyval \<Rightarrow> pyval \<Rightarrow> bool"
  and py_eq_list :: "pyval list \<Rightarrow> pyval list \<Rightarrow> bool"
  and py_dict_le :: "(string \<times> pyval) list \<Rightarrow> (string \<times> pyval) list \<Rightarrow> bool" where
  "py_eq PNone b = (b = PNone)"
| "py_eq (PBool x) b = (py_num b = Some (if x then 1 else 0))"
| "py_eq (PInt i) b = (py_num b = Some (of_int i))"
| "py_eq (PFloat r) b = (py_num b = Some r)"
| "py_eq (PStr s) b = (b = PStr s)"
| "py_eq (PList xs) b = (case b of PList ys \<Rightarrow> py_eq_list xs ys | _ \<Rightarrow> False)"
| "py_eq (PDict kvs) b =
     (case b of PDict kws \<Rightarrow> length kvs = length kws \<and> py_dict_le kvs kws | _ \<Rightarrow> False)"
| "py_eq_list [] ys = (ys = [])"
| "py_eq_list (x # xs) ys =
     (case ys of [] \<Rightarrow> False | y # ys' \<Rightarrow> py_eq x y \<and> py_eq_list xs ys')"
| "py_dict_le [] kws = True"
| "py_dict_le (kv # kvs) kws =
     (case map_of kws (fst kv) of
        None \<Rightarrow> False
      | Some w \<Rightarrow> py_eq (snd kv) w \<and> py_dict_le kvs kws)"

text \<open>\<^verbatim>\<open>u in s\<close> for two strings: \<open>u\<close> occurs in \<open>s\<close> as a contiguous substring.\<close>

fun str_contains :: "string \<Rightarrow> string \<Rightarrow> bool" where
  "str_contains [] u = (u = [])"
| "str_contains (c # cs) u = (take (length u) (c # cs) = u \<or> str_contains cs u)"

text \<open>
  \<^verbatim>\<open>item in container\<close>. A list compares its elements with \<^verbatim>\<open>==\<close>; a string accepts
  only a string on the left; a dict hashes the item (lists and dicts are unhashable)
  and looks it up among its keys; a number is not a container.
\<close>

definition py_in :: "pyval \<Rightarrow> pyval \<Rightarrow> exn + bool" where
  "py_in item container =
     (case container of
        PList xs \<Rightarrow> Inr (list_ex (\<lambda>x. py_eq x item) xs)
      | PStr s \<Rightarrow> (case item of PStr u \<Rightarrow> Inr (str_contains s u) | _ \<Rightarrow> Inl TypeError)
      | PDict kvs \<Rightarrow>
          (case item of
             PList _ \<Rightarrow> Inl TypeError
           | PDict _ \<Rightarrow> Inl TypeError
           | PStr k \<Rightarrow> Inr (map_of kvs k \<noteq> None)
           | _ \<Rightarrow> Inr False)
      | _ \<Rightarrow> Inl TypeError)"

text \<open>\<^verbatim>\<open>container.append(item)\<close>: only a list has the method.\<close>

definition py_append :: "pyval \<Rightarrow> pyval \<Rightarrow> exn + pyval" where
  "py_append container item =
     (case container of PList xs \<Rightarrow> Inr (PList (xs @ [item])) | _ \<Rightarrow> Inl AttributeError)"

text \<open>\<^verbatim>\<open>for x in container\<close>: the elements of a list, the characters of a string, the keys of a dict.\<close>

definition py_iter :: "pyval \<Rightarrow> exn + pyval list" where
  "py_iter container =
     (case container of
        PList xs \<Rightarrow> Inr xs
      | PStr s \<Rightarrow> Inr (map (\<lambda>c. PStr [c]) s)
      | PDict kvs \<Rightarrow> Inr (map (\<lambda>kv. PStr (fst kv)) kvs)
      | _ \<Rightarrow> Inl TypeError)"


section \<open>Python floats\<close>

text \<open>
  The numbers read back from the row store (scores, durations, costs, averages)
  are Python floats, and the code subtracts and compares them. A float is an IEEE
  754 binary64 value: a finite number, given by the rational it denotes, an
  infinity, or NaN. The two zeros are one value here; Python's \<^verbatim>\<open>==\<close> does not tell
  them apart either.
\<close>

datatype pyfloat = Fin rat | PosInf | NegInf | NaN

text \<open>\<^verbatim>\<open>int.bit_length\<close>: the number of binary digits of a natural number.\<close>

fun bit_length :: "nat \<Rightarrow> nat" where
  "bit_length n = (if n = 0 then 0 else Suc (bit_length (n div 2)))"

declare bit_length.simps [simp del]

definition pow2 :: "int \<Rightarrow> rat" where
  "pow2 i = (if 0 \<le> i then 2 ^ nat i else 1 / 2 ^ nat (- i))"

text \<open>The binary exponent of a positive rational \<open>m\<close>: the integer \<open>e\<close> with \<open>2^e \<le> m < 2^(e+1)\<close>.\<close>

definition floor_log2 :: "rat \<Rightarrow> int" where
  "floor_log2 m =
     (if 1 \<le> m then int (bit_length (nat \<lfloor>m\<rfloor>)) - 1
      else - int (bit_length (nat (\<lceil>1 / m\<rceil> - 1))))"

text \<open>The nearest integer, a tie going to the even neighbour.\<close>

definition round_half_even :: "rat \<Rightarrow> int" where
  "round_half_even q =
     (let n = \<lfloor>q\<rfloor>; d = q - of_int n
      in if d < 1 / 2 then n
         else if 1 / 2 < d then n + 1
         else if even n then n else n + 1)"

text \<open>
  Rounding of a positive rational to the binary64 grid: 53 significant bits, the
  exponent not below that of the subnormal numbers.
\<close>

definition round_magnitude :: "rat \<Rightarrow> rat" where
  "round_magnitude m =
     (let e = max (floor_log2 m) (- 1022); ulp = pow2 (e - 52)
      in of_int (round_half_even (m / ulp)) * ulp)"

text \<open>
  The float that an exact result is rounded to (round to nearest, ties to even);
  a magnitude that rounds to \<open>2^1024\<close> or more overflows to an infinity.
\<close>

definition round_double :: "rat \<Rightarrow> pyfloat" where
  "round_double x =
     (if x = 0 then Fin 0
      else if 0 < x
      then (if pow2 1024 \<le> round_magnitude x then PosInf else Fin (round_magnitude x))
      else (if pow2 1024 \<le> round_magnitude (- x) then NegInf else Fin (- round_magnitude (- x))))"

text \<open>Unary minus \<^verbatim>\<open>-x\<close>.\<close>

fun fneg :: "pyfloat \<Rightarrow> pyfloat" where
  "fneg (Fin r) = Fin (- r)"
| "fneg PosInf = NegInf"
| "fneg NegInf = PosInf"
| "fneg NaN = NaN"

text \<open>Subtraction \<^verbatim>\<open>x - y\<close>.\<close>

fun fsub :: "pyfloat \<Rightarrow> pyfloat \<Rightarrow> pyfloat" where
  "fsub NaN y = NaN"
| "fsub x NaN = NaN"
| "fsub PosInf PosInf = NaN"
| "fsub NegInf NegInf = NaN"
| "fsub PosInf y = PosInf"
| "fsub NegInf y = NegInf"
| "fsub (Fin a) PosInf = NegInf"
| "fsub (Fin a) NegInf = PosInf"
| "fsub (Fin a) (Fin b) = round_double (a - b)"

text \<open>The comparison \<^verbatim>\<open>x > y\<close>: false when either side is NaN.\<close>

fun float_gt :: "pyfloat \<Rightarrow> pyfloat \<Rightarrow> bool" where
  "float_gt NaN y = False"
| "float_gt x NaN = False"
| "float_gt PosInf y = (y \<noteq> PosInf)"
| "float_gt NegInf y = False"
| "float_gt (Fin a) PosInf = False"
| "float_gt (Fin a) NegInf = True"
| "float_gt (Fin a) (Fin b) = (b < a)"

text \<open>The comparison \<^verbatim>\<open>x == y\<close>: NaN is equal to nothing, itself included.\<close>

definition float_eq :: "pyfloat \<Rightarrow> pyfloat \<Rightarrow> bool" where
  "float_eq x y = (x \<noteq> NaN \<and> y \<noteq> NaN \<and> x = y)"


section \<open>Calibration analyzer (src/tracing/calibration_flags.py)\<close>

text \<open>
  The historical lookups are queries against the row store. Each one either returns
  or raises; the record below gives the outcome of every lookup the analyzer can
  make. A previous run is the row \<^verbatim>\<open>_previous_trace_for_project\<close> selects.
\<close>

record prev_row =
  prev_trace_id :: string
  prev_quality_gate_passed :: "bool option"
  prev_overall_quality_score :: "pyfloat option"

record history =
  recent_failure_count :: "pyval \<Rightarrow> exn + int"
  intent_avg_score :: "string \<Rightarrow> exn + pyfloat option"
  domain_avg_score :: "string \<Rightarrow> exn + pyfloat option"
  overall_avg_score :: "exn + pyfloat option"
  previous_trace_for_project :: "string \<Rightarrow> string \<Rightarrow> exn + prev_row option"

text \<open>
  A flag is a message built by an f-string; the model keeps the values the message
  is built from instead of the rendered text.
\<close>

datatype flag =
    RepeatedFailure pyval int
  | IntentDisparity string pyfloat pyfloat
  | DomainDisparity string pyfloat pyfloat
  | QualityRegression string

text \<open>\<^verbatim>\<open>if pid not in gap_principles: gap_principles.append(pid)\<close>.\<close>

definition add_gap :: "pyval \<Rightarrow> pyval \<Rightarrow> exn + pyval" where
  "add_gap pid gaps =
     (case py_in pid gaps of
        Inl e \<Rightarrow> Inl e
      | Inr True \<Rightarrow> Inr gaps
      | Inr False \<Rightarrow> py_append gaps pid)"

text \<open>
  The two scans of \<^verbatim>\<open>principle_scores\<close>. Neither is inside a \<^verbatim>\<open>try\<close>: an exception
  ends the scan and leaves the function. A scan returns the exception, if any,
  together with the contents of \<^verbatim>\<open>gap_principles\<close> at that moment, since the appends
  made before the exception stay made.
\<close>

fun scan_score_list :: "pyval list \<Rightarrow> pyval \<Rightarrow> exn option \<times> pyval" where
  "scan_score_list [] gaps = (None, gaps)"
| "scan_score_list (item # items) gaps =
     (case item of
        PDict d \<Rightarrow>
          (case py_lt2 (dict_get_default d ''score'' (PInt 3)) of
             Inl e \<Rightarrow> (Some e, gaps)
           | Inr False \<Rightarrow> scan_score_list items gaps
           | Inr True \<Rightarrow>
               (let pid = dict_get d ''id''
                in if truthy pid
                   then (case add_gap pid gaps of
                           Inl e \<Rightarrow> (Some e, gaps)
                         | Inr gaps' \<Rightarrow> scan_score_list items gaps')
                   else scan_score_list items gaps))
      | _ \<Rightarrow> scan_score_list items gaps)"

fun scan_score_dict :: "(string \<times> pyval) list \<Rightarrow> pyval \<Rightarrow> exn option \<times> pyval" where
  "scan_score_dict [] gaps = (None, gaps)"
| "scan_score_dict ((pid, score) # items) gaps =
     (case py_lt2 score of
        Inl e \<Rightarrow> (Some e, gaps)
      | Inr False \<Rightarrow> scan_score_dict items gaps
      | Inr True \<Rightarrow>
          (case add_gap (PStr pid) gaps of
             Inl e \<Rightarrow> (Some e, gaps)
           | Inr gaps' \<Rightarrow> scan_score_dict items gaps'))"

definition scan_scores :: "pyval \<Rightarrow> pyval \<Rightarrow> exn option \<times> pyval" where
  "scan_scores principle_scores gaps =
     (case principle_scores of
        PList items \<Rightarrow> scan_score_list items gaps
      | PDict items \<Rightarrow> scan_score_dict items gaps
      | _ \<Rightarrow> (None, gaps))"

text \<open>Check 1: one fault-isolated lookup per gap principle.\<close>

fun check_failures :: "history \<Rightarrow> pyval list \<Rightarrow> flag list \<Rightarrow> flag list" where
  "check_failures h [] flags = flags"
| "check_failures h (principle_id # rest) flags =
     check_failures h rest
       (case recent_failure_count h principle_id of
          Inl e \<Rightarrow> flags
        | Inr count \<Rightarrow>
            if count \<ge> 3 then flags @ [RepeatedFailure principle_id count] else flags)"

text \<open>
  Checks 2 and 3: the disparity of one dimension against the overall average,
  \<^verbatim>\<open>overall_avg - dim_avg > 0.5\<close> on floats.
\<close>

definition check_disparity ::
  "(string \<Rightarrow> pyfloat \<Rightarrow> pyfloat \<Rightarrow> flag) \<Rightarrow> (string \<Rightarrow> exn + pyfloat option) \<Rightarrow> history \<Rightarrow>
   string option \<Rightarrow> flag list \<Rightarrow> flag list" where
  "check_disparity mk lookup h tag flags =
     (case tag of
        None \<Rightarrow> flags
      | Some v \<Rightarrow>
          if v = [] then flags
          else
            (case lookup v of
               Inl e \<Rightarrow> flags
             | Inr dim_avg \<Rightarrow>
                 (case overall_avg_score h of
                    Inl e \<Rightarrow> flags
                  | Inr overall_avg \<Rightarrow>
                      (case (dim_avg, overall_avg) of
                         (Some a, Some b) \<Rightarrow>
                           if float_gt (fsub b a) (Fin (1 / 2)) then flags @ [mk v a b] else flags
                       | _ \<Rightarrow> flags))))"

text \<open>Check 4: \<^verbatim>\<open>qg_passed is False and trace.project_id and trace.started_at\<close>.\<close>

definition check_regression :: "history \<Rightarrow> Trace \<Rightarrow> pyval \<Rightarrow> flag list \<Rightarrow> flag list" where
  "check_regression h t qg_passed flags =
     (case (project_id t, started_at t) of
        (Some pid, Some started) \<Rightarrow>
          if qg_passed = PBool False \<and> pid \<noteq> [] \<and> started \<noteq> []
          then
            (case previous_trace_for_project h pid started of
               Inl e \<Rightarrow> flags
             | Inr None \<Rightarrow> flags
             | Inr (Some prev) \<Rightarrow>
                 if prev_quality_gate_passed prev = Some True
                 then flags @ [QualityRegression
                        (case project_name t of
                           Some n \<Rightarrow> if n \<noteq> [] then n else pid
                         | None \<Rightarrow> pid)]
                 else flags)
          else flags
      | _ \<Rightarrow> flags)"

text \<open>
  \<^verbatim>\<open>gap_principles = qg_outputs.get("gap_principles") or []\<close>: when the stored value
  is truthy, the local name refers to the very object held in the stage's outputs,
  and \<^verbatim>\<open>append\<close> changes that object; otherwise the local name refers to a new list.
  \<open>store_gaps\<close> is the trace after the appends to the shared object: the value
  under \<^verbatim>\<open>"gap_principles"\<close> in the outputs of the stage \<^verbatim>\<open>"quality_gate"\<close> is the
  current contents of the list.
\<close>

definition store_gaps :: "Trace \<Rightarrow> StageTrace \<Rightarrow> pyval \<Rightarrow> Trace" where
  "store_gaps t qg_stage gaps =
     t \<lparr> stages :=
           AList.update ''quality_gate''
             (qg_stage \<lparr> stage_outputs :=
                 AList.update ''gap_principles'' gaps (stage_outputs qg_stage) \<rparr>)
             (stages t) \<rparr>"

text \<open>
  \<^verbatim>\<open>check_calibration_flags(trace)\<close>: the returned list of flags or the exception
  that leaves the function, and the trace as it is after the call.
\<close>

definition check_calibration_flags :: "history \<Rightarrow> Trace \<Rightarrow> (exn + flag list) \<times> Trace" where
  "check_calibration_flags h t =
     (case map_of (stages t) ''quality_gate'' of
        None \<Rightarrow> (Inr [], t)
      | Some qg_stage \<Rightarrow>
          let qg_outputs = stage_outputs qg_stage;
              stored = dict_get qg_outputs ''gap_principles'';
              shared = truthy stored;
              gaps0 = (if shared then stored else PList []);
              principle_scores = dict_get qg_outputs ''principle_scores'';
              (raised, gaps) = scan_scores principle_scores gaps0;
              t' = (if shared then store_gaps t qg_stage gaps else t)
          in (case raised of
                Some e \<Rightarrow> (Inl e, t')
              | None \<Rightarrow>
                  (case py_iter gaps of
                     Inl e \<Rightarrow> (Inl e, t')
                   | Inr ids \<Rightarrow>
                       let flags1 = check_failures h ids [];
                           flags2 = check_disparity IntentDisparity (intent_avg_score h) h
                                      (intent t) flags1;
                           flags3 = check_disparity DomainDisparity (domain_avg_score h) h
                                      (domain t) flags2;
                           flags4 = check_regression h t (dict_get qg_outputs ''passed'') flags3
                       in (Inr flags4, t'))))"


section \<open>Run context (class TraceContext in src/tracing/context.py)\<close>

subsection \<open>Identifier generation\<close>

text \<open>
  \<^verbatim>\<open>datetime.now(timezone.utc)\<close> is a calendar date and a time of day. \<^verbatim>\<open>strftime\<close>
  writes the year as a decimal number (the C library does not pad it) and pads
  month, day, hour, minute and second with zeros to two digits.
\<close>

record utc_datetime =
  dt_year :: nat
  dt_month :: nat
  dt_day :: nat
  dt_hour :: nat
  dt_minute :: nat
  dt_second :: nat

definition dec_digit :: "nat \<Rightarrow> char" where
  "dec_digit n = ''0123456789'' ! (n mod 10)"

fun dec :: "nat \<Rightarrow> string" where
  "dec n = (if n < 10 then [dec_digit n] else dec (n div 10) @ [dec_digit n])"

declare dec.simps [simp del]

definition pad2 :: "nat \<Rightarrow> string" where
  "pad2 n = replicate (2 - length (dec n)) CHR ''0'' @ dec n"

text \<open>\<^verbatim>\<open>strftime('%Y%m%d_%H%M%S')\<close>.\<close>

definition strftime_stamp :: "utc_datetime \<Rightarrow> string" where
  "strftime_stamp dt =
     dec (dt_year dt) @ pad2 (dt_month dt) @ pad2 (dt_day dt) @ ''_'' @
     pad2 (dt_hour dt) @ pad2 (dt_minute dt) @ pad2 (dt_second dt)"

text \<open>
  \<^verbatim>\<open>uuid.uuid4().hex\<close>: the 128 bits of the identifier as 32 hexadecimal digits,
  most significant first, in lower case.
\<close>

definition hex_digit :: "nat \<Rightarrow> char" where
  "hex_digit n = ''0123456789abcdef'' ! (n mod 16)"

definition uuid_hex :: "128 word \<Rightarrow> string" where
  "uuid_hex u = map (\<lambda>i. hex_digit (unat u div 16 ^ (31 - i))) [0..<32]"

definition new_trace_id :: "utc_datetime \<Rightarrow> 128 word \<Rightarrow> string" where
  "new_trace_id dt u = ''trc_'' @ strftime_stamp dt @ ''_'' @ take 8 (uuid_hex u)"

subsection \<open>start\<close>

text \<open>
  The context variable \<^verbatim>\<open>_current_trace\<close> of the calling task is a value of type
  \<open>Trace option\<close>; \<^verbatim>\<open>start\<close> and \<^verbatim>\<open>finish\<close> return its new value next to their result.
  The keyword arguments of \<^verbatim>\<open>start\<close> are gathered in a record.
\<close>

record start_args =
  arg_project_id :: "string option"
  arg_project_name :: "string option"
  arg_query :: "string option"
  arg_intent :: "string option"
  arg_domain :: "string option"
  arg_report_type :: "string option"
  arg_research_type :: "string option"
  arg_enabled :: bool

definition TraceContext_start ::
  "utc_datetime \<Rightarrow> 128 word \<Rightarrow> string \<Rightarrow> rat \<Rightarrow> start_args \<Rightarrow> Trace \<times> Trace option" where
  "TraceContext_start dt u now mnow a =
     (if \<not> arg_enabled a then (NoOpTrace_init, Some NoOpTrace_init)
      else
        let t = (Trace_init (new_trace_id dt u))
                  \<lparr> project_id := arg_project_id a,
                    project_name := arg_project_name a,
                    query := arg_query a,
                    intent := arg_intent a,
                    domain := arg_domain a,
                    report_type := arg_report_type a,
                    research_type := arg_research_type a,
                    started_at := Some now,
                    start_time := mnow \<rparr>
        in (t, Some t))"

subsection \<open>finish\<close>

text \<open>
  The collaborators \<^verbatim>\<open>finish\<close> calls: the two writers of the persistence layer, the
  summary renderer, the calibration analyzer with its lookups, the update of the
  review flag and the writer of the alert file. Each is given by its outcome on its
  arguments: a returned value or a raised exception.
\<close>

record services =
  write_trace_file :: "Trace \<Rightarrow> exn + string"
  write_trace_metadata :: "Trace \<Rightarrow> exn + unit"
  print_summary :: "bool \<Rightarrow> Trace \<Rightarrow> exn + unit"
  write_summary_file :: "Trace \<Rightarrow> exn + string option"
  lookups :: history
  set_flagged_for_review :: "string \<Rightarrow> exn + unit"
  write_calibration_alert_file :: "Trace \<Rightarrow> flag list \<Rightarrow> exn + unit"

datatype invocation =
    WriteTraceFile
  | WriteTraceMetadata
  | PrintSummary
  | WriteSummaryFile
  | CheckCalibrationFlags
  | SetFlaggedForReview
  | WriteCalibrationAlertFile

text \<open>The values of the result map.\<close>

datatype rval = RStr string | RBool bool | RFlags "flag list"

record finished =
  result :: "(string \<times> rval) list"
  trace_after :: Trace
  current_after :: "Trace option"
  invoked :: "invocation list"

definition finish_file :: "services \<Rightarrow> (string \<times> rval) list \<times> Trace \<Rightarrow> (string \<times> rval) list \<times> Trace" where
  "finish_file sv rt =
     (case rt of (r, t) \<Rightarrow>
        (case write_trace_file sv t of
           Inr file_path \<Rightarrow>
             (AList.update ''file_path'' (RStr file_path) r,
              t \<lparr> outputs := AList.update ''trace_file_path'' (PStr file_path) (outputs t) \<rparr>)
         | Inl e \<Rightarrow> (AList.update ''file_error'' (RStr (exn_msg e)) r, t)))"

definition finish_row :: "services \<Rightarrow> (string \<times> rval) list \<times> Trace \<Rightarrow> (string \<times> rval) list \<times> Trace" where
  "finish_row sv rt =
     (case rt of (r, t) \<Rightarrow>
        (case write_trace_metadata sv t of
           Inr _ \<Rightarrow> (AList.update ''supabase'' (RStr ''saved'') r, t)
         | Inl e \<Rightarrow> (AList.update ''supabase_error'' (RStr (exn_msg e)) r, t)))"

definition finish_summary :: "services \<Rightarrow> (string \<times> rval) list \<times> Trace \<Rightarrow> (string \<times> rval) list \<times> Trace" where
  "finish_summary sv rt =
     (case rt of (r, t) \<Rightarrow>
        (case write_summary_file sv t of
           Inr (Some summary_path) \<Rightarrow> (AList.update ''summary_file'' (RStr summary_path) r, t)
         | _ \<Rightarrow> (r, t)))"

text \<open>
  The calibration step: the result map, the trace after the analyzer ran, and
  the collaborators invoked after the analyzer.
\<close>

definition finish_calibration ::
  "services \<Rightarrow> (string \<times> rval) list \<times> Trace \<Rightarrow> ((string \<times> rval) list \<times> Trace) \<times> invocation list" where
  "finish_calibration sv rt =
     (case rt of (r, t) \<Rightarrow>
        (case check_calibration_flags (lookups sv) t of
           (Inl e, t') \<Rightarrow> ((AList.update ''calibration_flags'' (RFlags []) r, t'), [])
         | (Inr flags, t') \<Rightarrow>
             let r1 = AList.update ''calibration_flags'' (RFlags flags) r
             in if flags = [] then ((r1, t'), [])
                else
                  ((case set_flagged_for_review sv (trace_id t') of
                      Inr _ \<Rightarrow> AList.update ''flagged_for_review'' (RBool True) r1
                    | Inl e \<Rightarrow> r1,
                    t'),
                   [SetFlaggedForReview, WriteCalibrationAlertFile])))"

text \<open>\<^verbatim>\<open>if trace.status == "in_progress": trace.mark_incomplete()\<close>.\<close>

definition finish_status :: "string \<Rightarrow> rat \<Rightarrow> Trace \<Rightarrow> Trace" where
  "finish_status now mnow t =
     (if status t = ''in_progress'' then Trace_mark_incomplete now mnow t else t)"

definition TraceContext_finish ::
  "services \<Rightarrow> string \<Rightarrow> rat \<Rightarrow> bool \<Rightarrow> Trace \<Rightarrow> finished" where
  "TraceContext_finish sv now mnow verbose t =
     (if cls t = NoOpTraceClass
      then \<lparr> result = [(''saved'', RBool False), (''reason'', RStr ''tracing_disabled'')],
             trace_after = t, current_after = None, invoked = [] \<rparr>
      else
        let t1 = finish_status now mnow t;
            r0 = [(''trace_id'', RStr (trace_id t1)), (''status'', RStr (status t1))];
            ((r, t2), later) =
              finish_calibration sv (finish_summary sv (finish_row sv (finish_file sv (r0, t1))))
        in \<lparr> result = r, trace_after = t2, current_after = None,
             invoked = [WriteTraceFile, WriteTraceMetadata, PrintSummary, WriteSummaryFile,
                        CheckCalibrationFlags] @ later \<rparr>)"


section \<open>Query service: compare (src/tracing/query.py)\<close>

text \<open>
  The columns of a stored row that \<^verbatim>\<open>compare\<close> reads; the three numeric columns
  are float columns. The row store answers a
  lookup by identifier with a row, with no row, or with an exception, which
  \<^verbatim>\<open>compare\<close> does not catch.
\<close>

record trace_row =
  overall_quality_score :: "pyfloat option"
  row_duration_seconds :: "pyfloat option"
  synthesis_cost_usd :: "pyfloat option"
  gap_principles :: "string list option"

type_synonym row_store = "string \<Rightarrow> exn + trace_row option"

record comparison =
  trace_a :: string
  trace_b :: string
  quality_delta :: "pyfloat option"
  duration_delta :: "pyfloat option"
  cost_delta :: "pyfloat option"
  gaps_a_only :: "string list"
  gaps_b_only :: "string list"
  gaps_both :: "string list"

datatype compare_result = NotFound string | Compared comparison

text \<open>\<^verbatim>\<open>(y - x) if x is not None and y is not None else None\<close>.\<close>

definition delta :: "pyfloat option \<Rightarrow> pyfloat option \<Rightarrow> pyfloat option" where
  "delta x y = (case (x, y) of (Some a, Some b) \<Rightarrow> Some (fsub b a) | _ \<Rightarrow> None)"

text \<open>\<^verbatim>\<open>set(row.get("gap_principles") or [])\<close>, as a list of its distinct members.\<close>

definition gap_set :: "trace_row \<Rightarrow> string list" where
  "gap_set row = (case gap_principles row of None \<Rightarrow> [] | Some xs \<Rightarrow> remdups xs)"

text \<open>\<^verbatim>\<open>sorted(x - y)\<close> and \<^verbatim>\<open>sorted(x & y)\<close> on sets of strings.\<close>

definition sorted_diff :: "string list \<Rightarrow> string list \<Rightarrow> string list" where
  "sorted_diff xs ys = sort (filter (\<lambda>x. x \<notin> set ys) xs)"

definition sorted_inter :: "string list \<Rightarrow> string list \<Rightarrow> string list" where
  "sorted_inter xs ys = sort (filter (\<lambda>x. x \<in> set ys) xs)"

definition compare :: "row_store \<Rightarrow> string \<Rightarrow> string \<Rightarrow> exn + compare_result" where
  "compare db trace_id_a trace_id_b =
     (case db trace_id_a of
        Inl e \<Rightarrow> Inl e
      | Inr row_a \<Rightarrow>
          (case db trace_id_b of
             Inl e \<Rightarrow> Inl e
           | Inr row_b \<Rightarrow>
               (case (row_a, row_b) of
                  (Some ra, Some rb) \<Rightarrow>
                    Inr (Compared
                      \<lparr> trace_a = trace_id_a,
                        trace_b = trace_id_b,
                        quality_delta = delta (overall_quality_score ra) (overall_quality_score rb),
                        duration_delta = delta (row_duration_seconds ra) (row_duration_seconds rb),
                        cost_delta = delta (synthesis_cost_usd ra) (synthesis_cost_usd rb),
                        gaps_a_only = sorted_diff (gap_set ra) (gap_set rb),
                        gaps_b_only = sorted_diff (gap_set rb) (gap_set ra),
                        gaps_both = sorted_inter (gap_set ra) (gap_set rb) \<rparr>)
                | _ \<Rightarrow> Inr (NotFound ''One or both traces not found''))))"


section \<open>Notions used to state the properties\<close>

text \<open>An iteration record counts as a failure when its pass flag is falsy.\<close>

definition failed_iteration :: "pydict \<Rightarrow> bool" where
  "failed_iteration d = (\<not> truthy (pass_flag d))"

text \<open>
  The monotonic reading captured by the last \<^verbatim>\<open>start_stage\<close> call for a stage name
  in a call sequence, if the sequence starts the stage at all.
\<close>

fun start_reading :: "string \<Rightarrow> (string \<times> rat \<times> call) list \<Rightarrow> rat option" where
  "start_reading sn [] = None"
| "start_reading sn ((now, m, k) # cs) =
     (case start_reading sn cs of
        Some r \<Rightarrow> Some r
      | None \<Rightarrow> if k = StartStage sn then Some m else None)"

text \<open>
  A stage that exists without ever having been started: no start timestamp, no
  duration, and no monotonic reading captured under its name.
\<close>

definition unstarted_stage :: "Trace \<Rightarrow> string \<Rightarrow> bool" where
  "unstarted_stage t sn =
     (case map_of (stages t) sn of
        None \<Rightarrow> False
      | Some s \<Rightarrow> stage_started_at s = None \<and> stage_duration_seconds s = None
                  \<and> map_of (stage_start_times t) sn = None)"


text \<open>
  The identifier format in the words of the specification: \<^verbatim>\<open>trc_\<close>, eight digits,
  an underscore, six digits, an underscore, eight lower-case hexadecimal characters.
\<close>

definition is_digit :: "char \<Rightarrow> bool" where
  "is_digit c = (c \<in> set ''0123456789'')"

definition is_lower_hex :: "char \<Rightarrow> bool" where
  "is_lower_hex c = (c \<in> set ''0123456789abcdef'')"

definition trace_id_format :: "string \<Rightarrow> bool" where
  "trace_id_format s =
     (length s = 28
      \<and> take 4 s = ''trc_''
      \<and> list_all is_digit (take 8 (drop 4 s))
      \<and> take 1 (drop 12 s) = ''_''
      \<and> list_all is_digit (take 6 (drop 13 s))
      \<and> take 1 (drop 19 s) = ''_''
      \<and> list_all is_lower_hex (drop 20 s))"

text \<open>
  The readings the clock can give: a calendar date with a four-digit year and a
  time of day.
\<close>

definition valid_datetime :: "utc_datetime \<Rightarrow> bool" where
  "valid_datetime dt =
     (1000 \<le> dt_year dt \<and> dt_year dt \<le> 9999
      \<and> 1 \<le> dt_month dt \<and> dt_month dt \<le> 12
      \<and> 1 \<le> dt_day dt \<and> dt_day dt \<le> 31
      \<and> dt_hour dt \<le> 23 \<and> dt_minute dt \<le> 59 \<and> dt_second dt \<le> 59)"

text \<open>
  An example history in which every lookup succeeds and nothing is remarkable, and
  example collaborators of which only the writer of the trace file fails.
\<close>

definition ex_history :: history where
  "ex_history =
     \<lparr> recent_failure_count = (\<lambda>p. Inr 0),
       intent_avg_score = (\<lambda>i. Inr (Some (Fin (5 / 2)))),
       domain_avg_score = (\<lambda>d. Inr (Some (Fin (5 / 2)))),
       overall_avg_score = Inr (Some (Fin (5 / 2))),
       previous_trace_for_project = (\<lambda>p b. Inr None) \<rparr>"

definition ex_services :: services where
  "ex_services =
     \<lparr> write_trace_file = (\<lambda>t. Inl (Exn ''OSError'' ''disk full'')),
       write_trace_metadata = (\<lambda>t. Inr ()),
       print_summary = (\<lambda>v t. Inr ()),
       write_summary_file = (\<lambda>t. Inr None),
       lookups = ex_history,
       set_flagged_for_review = (\<lambda>i. Inr ()),
       write_calibration_alert_file = (\<lambda>t fs. Inr ()) \<rparr>"

text \<open>
  Example traces with a finished quality-gate stage, built as the repository's tests
  build them: \<^verbatim>\<open>start_stage("quality_gate")\<close>, then \<^verbatim>\<open>end_stage\<close> with the outputs.
\<close>

definition ex_qg_trace :: "pydict \<Rightarrow> Trace" where
  "ex_qg_trace outs =
     do_calls [(''2026-02-13T12:00:00+00:00'', 1, StartStage ''quality_gate''),
               (''2026-02-13T12:00:01+00:00'', 2, EndStage ''quality_gate'' (Some outs) None)]
       ((Trace_init ''trc_test_flags'') \<lparr> status := ''complete'' \<rparr>)"

text \<open>
  \<^verbatim>\<open>{"passed": True, "gap_principles": ["META-12"], "principle_scores": {"META-1": 3, "MR-1": 0}}\<close>
\<close>

definition ex_gap_outputs :: pydict where
  "ex_gap_outputs =
     [(''passed'', PBool True),
      (''gap_principles'', PList [PStr ''META-12'']),
      (''principle_scores'', PDict [(''META-1'', PInt 3), (''MR-1'', PInt 0)])]"

text \<open>\<^verbatim>\<open>{"passed": True, "principle_scores": {"META-1": 3, "META-12": "n/a"}}\<close>\<close>

definition ex_text_score_outputs :: pydict where
  "ex_text_score_outputs =
     [(''passed'', PBool True),
      (''principle_scores'', PDict [(''META-1'', PInt 3), (''META-12'', PStr ''n/a'')])]"

text \<open>An example clock reading and example arguments of \<^verbatim>\<open>start\<close>.\<close>

definition ex_dt :: utc_datetime where
  "ex_dt = \<lparr> dt_year = 2026, dt_month = 2, dt_day = 13,
             dt_hour = 9, dt_minute = 5, dt_second = 0 \<rparr>"

definition ex_args :: start_args where
  "ex_args =
     \<lparr> arg_project_id = None, arg_project_name = Some ''test'', arg_query = None,
       arg_intent = None, arg_domain = None, arg_report_type = None,
       arg_research_type = None, arg_enabled = True \<rparr>"

text \<open>
  The identifier in the words of the specification, built from the clock reading
  and the random identifier: \<^verbatim>\<open>trc_\<close>, the date as year, month and day in four,
  two and two decimal digits, an underscore, the time as hour, minute and second
  in two decimal digits each, an underscore, and the eight most significant
  hexadecimal digits of the 128 random bits. Fields are padded with zeros to their
  fixed width.
\<close>

definition fixed_dec :: "nat \<Rightarrow> nat \<Rightarrow> string" where
  "fixed_dec w n = map (\<lambda>i. dec_digit (n div 10 ^ (w - 1 - i))) [0..<w]"

definition fixed_hex :: "nat \<Rightarrow> nat \<Rightarrow> string" where
  "fixed_hex w n = map (\<lambda>i. hex_digit (n div 16 ^ (w - 1 - i))) [0..<w]"

definition spec_trace_id :: "utc_datetime \<Rightarrow> 128 word \<Rightarrow> string" where
  "spec_trace_id dt u =
     ''trc_'' @ fixed_dec 4 (dt_year dt) @ fixed_dec 2 (dt_month dt) @ fixed_dec 2 (dt_day dt)
     @ ''_'' @ fixed_dec 2 (dt_hour dt) @ fixed_dec 2 (dt_minute dt) @ fixed_dec 2 (dt_second dt)
     @ ''_'' @ fixed_hex 8 (unat u div 2 ^ 96)"

text \<open>The example arguments of \<^verbatim>\<open>start\<close> with tracing disabled.\<close>

definition ex_args_disabled :: start_args where
  "ex_args_disabled = ex_args \<lparr> arg_enabled := False \<rparr>"

text \<open>
  Relations between the deltas of two comparisons. A stored value is finite when
  it is present and is neither an infinity nor NaN. A delta is a number when it is
  present and not NaN. The delta \<open>dy\<close> is the negation of the delta \<open>dx\<close> when both
  are null, or both are NaN, or \<open>dy == -dx\<close> holds in the sense of Python.
\<close>

definition finite_value :: "pyfloat option \<Rightarrow> bool" where
  "finite_value v = (case v of Some (Fin r) \<Rightarrow> True | _ \<Rightarrow> False)"

definition number_delta :: "pyfloat option \<Rightarrow> bool" where
  "number_delta d = (case d of Some v \<Rightarrow> v \<noteq> NaN | None \<Rightarrow> False)"

definition negated_delta :: "pyfloat option \<Rightarrow> pyfloat option \<Rightarrow> bool" where
  "negated_delta dx dy =
     (case dx of
        None \<Rightarrow> dy = None
      | Some u \<Rightarrow>
          (case dy of
             None \<Rightarrow> False
           | Some v \<Rightarrow> if u = NaN then v = NaN else float_eq v (fneg u)))"

text \<open>The gap categories of a stored row, as a set.\<close>

definition gaps_of :: "trace_row \<Rightarrow> string set" where
  "gaps_of row = (case gap_principles row of None \<Rightarrow> {} | Some xs \<Rightarrow> set xs)"

text \<open>The quality delta of the result of \<^verbatim>\<open>compare\<close>, null when there is no comparison.\<close>

definition quality_delta_of :: "exn + compare_result \<Rightarrow> pyfloat option" where
  "quality_delta_of r = (case r of Inr (Compared c) \<Rightarrow> quality_delta c | _ \<Rightarrow> None)"

text \<open>
  Example rows of the row store. The scores \<^verbatim>\<open>2.0\<close> and \<^verbatim>\<open>2.8\<close> are the floats
  with these decimal literals; a third row holds the score NaN, which a float
  column can store.
\<close>

definition ex_row_a :: trace_row where
  "ex_row_a =
     \<lparr> overall_quality_score = Some (Fin 2), row_duration_seconds = Some (Fin 200),
       synthesis_cost_usd = Some (Fin (3602879701896397 / 18014398509481984)),
       gap_principles = Some [''META-12'', ''META-5''] \<rparr>"

definition ex_row_b :: trace_row where
  "ex_row_b =
     \<lparr> overall_quality_score = Some (Fin (3152519739159347 / 1125899906842624)),
       row_duration_seconds = Some (Fin 250),
       synthesis_cost_usd = None,
       gap_principles = Some [''MR-1'', ''META-12''] \<rparr>"

definition ex_row_nan :: trace_row where
  "ex_row_nan =
     \<lparr> overall_quality_score = Some NaN, row_duration_seconds = None,
       synthesis_cost_usd = None, gap_principles = None \<rparr>"

definition ex_db :: row_store where
  "ex_db i =
     (if i = ''trc_a'' then Inr (Some ex_row_a)
      else if i = ''trc_b'' then Inr (Some ex_row_b)
      else if i = ''trc_nan'' then Inr (Some ex_row_nan)
      else Inr None)"

text \<open>
  An example history for the disparity check: the floats \<^verbatim>\<open>0.3\<close> for every
  intent and domain and \<^verbatim>\<open>0.8\<close> overall.
\<close>

definition ex_history_close :: history where
  "ex_history_close =
     \<lparr> recent_failure_count = (\<lambda>p. Inr 0),
       intent_avg_score = (\<lambda>i. Inr (Some (Fin (5404319552844595 / 18014398509481984)))),
       domain_avg_score = (\<lambda>d. Inr (Some (Fin (5404319552844595 / 18014398509481984)))),
       overall_avg_score = Inr (Some (Fin (3602879701896397 / 4503599627370496))),
       previous_trace_for_project = (\<lambda>p b. Inr None) \<rparr>"


section \<open>Properties of the recording API\<close>

lemmas Trace_defs =
  Trace_start_stage_def Trace_end_stage_def Trace_record_def Trace_record_evidence_def
  Trace_record_prompts_def Trace_record_iteration_def Trace_set_outputs_def
  Trace_mark_complete_def Trace_mark_failed_def Trace_mark_incomplete_def stamp_end_def

lemma do_calls_Nil: "do_calls [] t = t"
  by (simp add: do_calls_def)

lemma do_calls_Cons: "do_calls (c # cs) t = do_calls cs (do_call c t)"
  by (simp add: do_calls_def)

lemma do_calls_append: "do_calls (cs @ ds) t = do_calls ds (do_calls cs t)"
  by (simp add: do_calls_def)

lemma cls_Trace_call: "cls (Trace_call now mnow k t) = cls t"
  by (cases k) (simp_all add: Trace_defs Let_def split: option.splits)

lemma cls_do_call: "cls (do_call c t) = cls t"
  by (cases c) (simp add: do_call_def cls_Trace_call)

lemma cls_do_calls: "cls (do_calls cs t) = cls t"
  by (induction cs arbitrary: t) (simp_all add: do_calls_Nil do_calls_Cons cls_do_call)

lemma trace_id_Trace_call: "trace_id (Trace_call now mnow k t) = trace_id t"
  by (cases k) (simp_all add: Trace_defs Let_def split: option.splits)

lemma trace_id_do_call: "trace_id (do_call c t) = trace_id t"
  by (cases c) (simp add: do_call_def trace_id_Trace_call)

lemma trace_id_do_calls: "trace_id (do_calls cs t) = trace_id t"
  by (induction cs arbitrary: t) (simp_all add: do_calls_Nil do_calls_Cons trace_id_do_call)

lemma noop_do_call: "cls t = NoOpTraceClass \<Longrightarrow> do_call c t = t"
  by (cases c) (simp add: do_call_def)

lemma noop_do_calls: "cls t = NoOpTraceClass \<Longrightarrow> do_calls cs t = t"
  by (induction cs arbitrary: t) (simp_all add: do_calls_Nil do_calls_Cons noop_do_call)

subsection \<open>Iteration counters\<close>

lemma iter_step:
  assumes "cls t = TraceClass"
  shows "iterations (do_call c t) = iterations t @ iteration_args [c]
       \<and> quality_gate_failures (do_call c t)
           = quality_gate_failures t + int (length (filter failed_iteration (iteration_args [c])))
       \<and> iteration_count (do_call c t)
           = (if iteration_args [c] = [] then iteration_count t
              else int (length (iterations t @ iteration_args [c])))"
proof -
  obtain now mnow k where c: "c = (now, mnow, k)" by (cases c) auto
  show ?thesis using assms unfolding c
    by (cases k)
       (simp_all add: do_call_def Trace_defs Let_def failed_iteration_def split: option.splits)
qed

lemma iteration_args_Cons: "iteration_args (c # cs) = iteration_args [c] @ iteration_args cs"
proof -
  obtain now mnow k where c: "c = (now, mnow, k)" by (cases c) auto
  show ?thesis unfolding c by (cases k) simp_all
qed

lemma iter_run:
  assumes "cls t = TraceClass"
  shows "iterations (do_calls cs t) = iterations t @ iteration_args cs
       \<and> quality_gate_failures (do_calls cs t)
           = quality_gate_failures t + int (length (filter failed_iteration (iteration_args cs)))
       \<and> iteration_count (do_calls cs t)
           = (if iteration_args cs = [] then iteration_count t
              else int (length (iterations t @ iteration_args cs)))"
  using assms
proof (induction cs arbitrary: t)
  case Nil
  then show ?case by (simp add: do_calls_Nil)
next
  case (Cons c cs)
  have c1: "cls (do_call c t) = TraceClass" using Cons.prems by (simp add: cls_do_call)
  note step = iter_step [OF Cons.prems, of c]
  note ih = Cons.IH [OF c1]
  show ?case
    unfolding do_calls_Cons iteration_args_Cons [of c cs]
    using step ih by (auto split: if_splits)
qed

text \<open>
  Claim C1, as amended. On a trace of class \<^verbatim>\<open>Trace\<close> whose iteration list is empty
  and whose counters have their initial values (1 and 0), after any sequence of
  recording calls: the iteration list holds exactly the arguments of the
  \<^verbatim>\<open>record_iteration\<close> calls, in order; \<^verbatim>\<open>iteration_count\<close> is the length of that
  list once there was at least one such call, and is still 1 when there was none;
  \<^verbatim>\<open>quality_gate_failures\<close> is the number of those calls whose pass flag was falsy,
  and exceeds neither the length of the iteration list nor \<^verbatim>\<open>iteration_count\<close>.
\<close>

theorem iteration_counters:
  assumes "cls t = TraceClass" and "iterations t = []"
    and "iteration_count t = 1" and "quality_gate_failures t = 0"
  shows "iterations (do_calls cs t) = iteration_args cs
       \<and> iteration_count (do_calls cs t)
           = (if iteration_args cs = [] then 1 else int (length (iterations (do_calls cs t))))
       \<and> quality_gate_failures (do_calls cs t)
           = int (length (filter failed_iteration (iteration_args cs)))
       \<and> quality_gate_failures (do_calls cs t) \<le> int (length (iterations (do_calls cs t)))
       \<and> quality_gate_failures (do_calls cs t) \<le> iteration_count (do_calls cs t)"
proof -
  note r = iter_run [OF assms(1), of cs]
  have le: "length (filter failed_iteration (iteration_args cs)) \<le> length (iteration_args cs)"
    by (rule length_filter_le)
  show ?thesis using r assms(2-4) le by (auto simp: Suc_le_eq)
qed

theorem iteration_counters_witness:
  "cls (Trace_init ''trc_test'') = TraceClass
   \<and> iterations (Trace_init ''trc_test'') = []
   \<and> iteration_count (Trace_init ''trc_test'') = 1
   \<and> quality_gate_failures (Trace_init ''trc_test'') = 0
   \<and> iteration_count
        (do_calls [(''t1'', 1, RecordIteration [(''iteration'', PInt 1), (''passed'', PBool False)]),
                   (''t2'', 2, RecordIteration [(''iteration'', PInt 2), (''passed'', PBool True)])]
           (Trace_init ''trc_test'')) = 2
   \<and> quality_gate_failures
        (do_calls [(''t1'', 1, RecordIteration [(''iteration'', PInt 1), (''passed'', PBool False)]),
                   (''t2'', 2, RecordIteration [(''iteration'', PInt 2), (''passed'', PBool True)])]
           (Trace_init ''trc_test'')) = 1"
  using iteration_counters
          [of "Trace_init ''trc_test''"
              "[(''t1'', 1, RecordIteration [(''iteration'', PInt 1), (''passed'', PBool False)]),
                (''t2'', 2, RecordIteration [(''iteration'', PInt 2), (''passed'', PBool True)])]"]
  by (simp add: Trace_init_def failed_iteration_def pass_flag_def dict_get_default_def)

text \<open>
  Claim C1 as stated fails on the freshly constructed trace: its iteration list is
  empty and its \<^verbatim>\<open>iteration_count\<close> is 1.
\<close>

theorem fresh_iteration_count_counterexample:
  "iterations (Trace_init ''trc_test'') = []
   \<and> iteration_count (Trace_init ''trc_test'')
       \<noteq> int (length (iterations (Trace_init ''trc_test'')))"
  by (simp add: Trace_init_def)

subsection \<open>Ending a stage\<close>

text \<open>
  Claim C6. When the stage name is not a key of \<^verbatim>\<open>stages\<close>, \<^verbatim>\<open>end_stage\<close> returns
  without raising and leaves the whole trace, hence its \<^verbatim>\<open>stages\<close> mapping, as it
  was: no stage is created.
\<close>

theorem end_stage_unstarted:
  "map_of (stages t) sn = None \<Longrightarrow> do_call (now, mnow, EndStage sn outs err) t = t"
  by (simp add: do_call_def Trace_end_stage_def)

theorem end_stage_unstarted_witness:
  "map_of (stages (Trace_init ''trc_test'')) ''nonexistent'' = None
   \<and> do_call (''t1'', 5, EndStage ''nonexistent'' (Some [(''x'', PInt 1)]) (Some ''err''))
        (Trace_init ''trc_test'') = Trace_init ''trc_test''"
  using end_stage_unstarted
          [of "Trace_init ''trc_test''" "''nonexistent''" "''t1''" 5
              "Some [(''x'', PInt 1)]" "Some ''err''"]
  by (simp add: Trace_init_def)

subsection \<open>Started stages\<close>

lemma start_times_step:
  assumes "cls t = TraceClass"
  shows "map_of (stage_start_times (do_call (now, m, k) t)) sn
           = (if k = StartStage sn then Some m else map_of (stage_start_times t) sn)"
  using assms
  by (cases k)
     (auto simp: do_call_def Trace_defs Let_def AList.update_conv' split: option.splits)

lemma start_times_run:
  assumes "cls t = TraceClass"
  shows "map_of (stage_start_times (do_calls cs t)) sn
           = (case start_reading sn cs of
                Some r \<Rightarrow> Some r
              | None \<Rightarrow> map_of (stage_start_times t) sn)"
  using assms
proof (induction cs arbitrary: t)
  case Nil
  then show ?case by (simp add: do_calls_Nil)
next
  case (Cons c cs)
  obtain now m k where c: "c = (now, m, k)" by (cases c) auto
  have c1: "cls (do_call c t) = TraceClass" using Cons.prems by (simp add: cls_do_call)
  show ?case
    unfolding do_calls_Cons
    using Cons.IH [OF c1] start_times_step [OF Cons.prems, of now m k sn]
    unfolding c by (auto split: option.splits)
qed

lemma stages_step_keeps:
  assumes "map_of (stages t) sn \<noteq> None"
  shows "map_of (stages (do_call c t)) sn \<noteq> None"
proof -
  obtain now m k where c: "c = (now, m, k)" by (cases c) auto
  show ?thesis using assms unfolding c
    by (cases k)
       (auto simp: do_call_def Trace_defs Let_def AList.update_conv' split: option.splits)
qed

lemma stages_run_keeps:
  assumes "map_of (stages t) sn \<noteq> None"
  shows "map_of (stages (do_calls cs t)) sn \<noteq> None"
  using assms
proof (induction cs arbitrary: t)
  case Nil
  then show ?case unfolding do_calls_Nil .
next
  case (Cons c cs)
  show ?case
    unfolding do_calls_Cons
    by (rule Cons.IH [OF stages_step_keeps [OF Cons.prems]])
qed

lemma stages_step_start:
  assumes "cls t = TraceClass"
  shows "map_of (stages (do_call (now, m, StartStage sn) t)) sn \<noteq> None"
  using assms by (simp add: do_call_def Trace_defs AList.update_conv')

lemma started_run:
  assumes "cls t = TraceClass" and "start_reading sn cs \<noteq> None"
  shows "map_of (stages (do_calls cs t)) sn \<noteq> None"
  using assms
proof (induction cs arbitrary: t)
  case Nil
  then show ?case by simp
next
  case (Cons c cs)
  obtain now m k where c: "c = (now, m, k)" by (cases c) auto
  have c1: "cls (do_call c t) = TraceClass" using Cons.prems by (simp add: cls_do_call)
  show ?case
  proof (cases "start_reading sn cs")
    case None
    with Cons.prems(2) c have k: "k = StartStage sn" by (simp split: if_splits)
    have "map_of (stages (do_call c t)) sn \<noteq> None"
      unfolding c k by (rule stages_step_start [OF Cons.prems(1)])
    then show ?thesis unfolding do_calls_Cons by (rule stages_run_keeps)
  next
    case (Some r)
    then show ?thesis unfolding do_calls_Cons using Cons.IH [OF c1] by simp
  qed
qed

lemma not_started_run:
  assumes "cls t = TraceClass" and "map_of (stages (do_calls cs t)) sn = None"
  shows "start_reading sn cs = None"
proof (cases "start_reading sn cs")
  case None
  then show ?thesis .
next
  case (Some r)
  then have "start_reading sn cs \<noteq> None" by simp
  from started_run [OF assms(1) this] assms(2) show ?thesis by simp
qed





subsection \<open>Stages created by recording\<close>

lemma start_reading_Cons_None:
  "start_reading sn ((now, m, k) # cs) = None \<longleftrightarrow> start_reading sn cs = None \<and> k \<noteq> StartStage sn"
  by (simp split: option.splits)

lemma unstarted_step:
  assumes "cls t = TraceClass" and "unstarted_stage t sn" and "k \<noteq> StartStage sn"
  shows "unstarted_stage (do_call (now, m, k) t) sn"
  using assms
  by (cases k)
     (auto simp: unstarted_stage_def do_call_def Trace_defs Let_def AList.update_conv'
                 stage_or_new_def StageTrace_init_def
           split: option.splits)

lemma unstarted_run:
  assumes "cls t = TraceClass" and "unstarted_stage t sn" and "start_reading sn cs = None"
  shows "unstarted_stage (do_calls cs t) sn"
  using assms
proof (induction cs arbitrary: t)
  case Nil
  then show ?case by (simp add: do_calls_Nil)
next
  case (Cons c cs)
  obtain now m k where c: "c = (now, m, k)" by (cases c) auto
  from Cons.prems(3) have r: "start_reading sn cs = None" and k: "k \<noteq> StartStage sn"
    unfolding c start_reading_Cons_None by simp_all
  have c1: "cls (do_call c t) = TraceClass" using Cons.prems(1) by (simp add: cls_do_call)
  have u: "unstarted_stage (do_call c t) sn"
    unfolding c by (rule unstarted_step [OF Cons.prems(1) Cons.prems(2) k])
  show ?case unfolding do_calls_Cons by (rule Cons.IH [OF c1 u r])
qed

lemma auto_create:
  assumes "cls t = TraceClass" and "map_of (stages t) sn = None"
    and "map_of (stage_start_times t) sn = None"
    and "k = Record sn dt data \<or> k = RecordEvidence sn ev \<or> k = RecordPrompts sn ps"
  shows "unstarted_stage (do_call (now, m, k) t) sn"
  using assms
  by (auto simp: unstarted_stage_def do_call_def Trace_defs Let_def AList.update_conv'
                 stage_or_new_def StageTrace_init_def)

lemma unstarted_end:
  assumes "cls t = TraceClass" and "unstarted_stage t sn"
  shows "\<exists>s. map_of (stages (do_call (now, m, EndStage sn outs err) t)) sn = Some s
            \<and> stage_started_at s = None \<and> stage_completed_at s = Some now
            \<and> stage_duration_seconds s = None"
  using assms
  by (auto simp: unstarted_stage_def do_call_def Trace_defs Let_def AList.update_conv'
           split: option.splits)

text \<open>
  Claim C10. Take a trace that began with no stages and no captured readings, and
  any call sequence \<open>cs\<close> after which the name \<open>sn\<close> is not a key of \<^verbatim>\<open>stages\<close>.
  A call of \<^verbatim>\<open>record\<close>, \<^verbatim>\<open>record_evidence\<close> or \<^verbatim>\<open>record_prompts\<close> for \<open>sn\<close> then
  creates the stage with no start timestamp and with no monotonic reading
  captured under its name. After any further calls \<open>cs2\<close> that do not start the
  stage, \<^verbatim>\<open>end_stage\<close> returns without raising, sets the completion timestamp of the
  stage and leaves its duration null.
\<close>

theorem auto_created_stage:
  assumes "cls t0 = TraceClass" and "stages t0 = []" and "stage_start_times t0 = []"
    and "map_of (stages (do_calls cs t0)) sn = None"
    and "k = Record sn dt data \<or> k = RecordEvidence sn ev \<or> k = RecordPrompts sn ps"
    and "start_reading sn cs2 = None"
  shows "\<exists>s1 s3.
           map_of (stages (do_call (now1, m1, k) (do_calls cs t0))) sn = Some s1
         \<and> stage_started_at s1 = None
         \<and> map_of (stage_start_times (do_call (now1, m1, k) (do_calls cs t0))) sn = None
         \<and> map_of (stages (do_call (now3, m3, EndStage sn outs err)
                              (do_calls cs2 (do_call (now1, m1, k) (do_calls cs t0))))) sn = Some s3
         \<and> stage_completed_at s3 = Some now3
         \<and> stage_duration_seconds s3 = None"
proof -
  let ?t = "do_calls cs t0"
  let ?t1 = "do_call (now1, m1, k) ?t"
  let ?t2 = "do_calls cs2 ?t1"
  have c: "cls ?t = TraceClass" using assms(1) by (simp add: cls_do_calls)
  have c1: "cls ?t1 = TraceClass" using c by (simp add: cls_do_call)
  have c2: "cls ?t2 = TraceClass" using c1 by (simp add: cls_do_calls)
  have "start_reading sn cs = None" by (rule not_started_run [OF assms(1) assms(4)])
  then have nt: "map_of (stage_start_times ?t) sn = None"
    using start_times_run [OF assms(1), of cs sn] assms(3) by simp
  have u1: "unstarted_stage ?t1 sn" by (rule auto_create [OF c assms(4) nt assms(5)])
  have u2: "unstarted_stage ?t2 sn" by (rule unstarted_run [OF c1 u1 assms(6)])
  from u1 obtain s1 where s1: "map_of (stages ?t1) sn = Some s1" "stage_started_at s1 = None"
      "map_of (stage_start_times ?t1) sn = None"
    by (auto simp: unstarted_stage_def split: option.splits)
  from unstarted_end [OF c2 u2, of now3 m3 outs err] obtain s3 where
    s3: "map_of (stages (do_call (now3, m3, EndStage sn outs err) ?t2)) sn = Some s3"
        "stage_completed_at s3 = Some now3" "stage_duration_seconds s3 = None"
    by auto
  show ?thesis using s1 s3 by blast
qed

theorem auto_created_stage_witness:
  "cls (Trace_init ''trc_test'') = TraceClass
   \<and> stages (Trace_init ''trc_test'') = []
   \<and> stage_start_times (Trace_init ''trc_test'') = []
   \<and> map_of (stages (do_calls [(''t0'', 1, StartStage ''intake'')] (Trace_init ''trc_test''))) ''new_stage'' = None
   \<and> start_reading ''new_stage'' [(''t2'', 3, RecordEvidence ''new_stage'' [(''collected_count'', PInt 10)])] = None
   \<and> map_option (\<lambda>s. (stage_started_at s, stage_completed_at s, stage_duration_seconds s))
        (map_of (stages
           (do_call (''t3'', 4, EndStage ''new_stage'' None None)
              (do_calls [(''t2'', 3, RecordEvidence ''new_stage'' [(''collected_count'', PInt 10)])]
                 (do_call (''t1'', 2, Record ''new_stage'' ''some_decision'' [(''what'', PStr ''test'')])
                    (do_calls [(''t0'', 1, StartStage ''intake'')] (Trace_init ''trc_test'')))))) ''new_stage'')
       = Some (None, Some ''t3'', None)"
  using auto_created_stage
          [of "Trace_init ''trc_test''" "[(''t0'', 1, StartStage ''intake'')]" "''new_stage''"
              "Record ''new_stage'' ''some_decision'' [(''what'', PStr ''test'')]"
              "''some_decision''" "[(''what'', PStr ''test'')]" "[]" "[]"
              "[(''t2'', 3, RecordEvidence ''new_stage'' [(''collected_count'', PInt 10)])]"
              "''t1''" 2 "''t3''" 4 None None]
  by (auto simp: Trace_init_def do_calls_def do_call_def Trace_defs StageTrace_init_def
                 stage_or_new_def Let_def)

section \<open>Properties of the run context\<close>

subsection \<open>The identifier\<close>

lemma is_digit_dec_digit: "is_digit (dec_digit n)"
proof -
  have "n mod 10 < length ''0123456789''" by simp
  then have "''0123456789'' ! (n mod 10) \<in> set ''0123456789''" by (rule nth_mem)
  then show ?thesis unfolding is_digit_def dec_digit_def .
qed

lemma is_lower_hex_hex_digit: "is_lower_hex (hex_digit n)"
proof -
  have "n mod 16 < length ''0123456789abcdef''" by simp
  then have "''0123456789abcdef'' ! (n mod 16) \<in> set ''0123456789abcdef''" by (rule nth_mem)
  then show ?thesis unfolding is_lower_hex_def hex_digit_def .
qed

lemma dec_small: "n < 10 \<Longrightarrow> dec n = [dec_digit n]"
  by (subst dec.simps) simp

lemma dec_big: "10 \<le> n \<Longrightarrow> dec n = dec (n div 10) @ [dec_digit n]"
  by (subst dec.simps) simp

lemma dec_two: "10 \<le> n \<Longrightarrow> n < 100 \<Longrightarrow> dec n = [dec_digit (n div 10), dec_digit n]"
  by (simp add: dec_big dec_small)

lemma dec_three:
  "100 \<le> n \<Longrightarrow> n < 1000 \<Longrightarrow> dec n = [dec_digit (n div 100), dec_digit (n div 10), dec_digit n]"
  by (simp add: dec_big [of n] dec_two div_mult2_eq [symmetric])

lemma dec_four:
  assumes "1000 \<le> n" and "n \<le> 9999"
  shows "dec n = [dec_digit (n div 1000), dec_digit (n div 100), dec_digit (n div 10), dec_digit n]"
proof -
  have a: "100 \<le> n div 10" "n div 10 < 1000" using assms by simp_all
  have "dec n = dec (n div 10) @ [dec_digit n]" using assms by (simp add: dec_big)
  then show ?thesis using dec_three [OF a] by (simp add: div_mult2_eq [symmetric])
qed

lemma pad2_two:
  assumes "n < 100"
  shows "length (pad2 n) = 2 \<and> list_all is_digit (pad2 n)"
proof (cases "n < 10")
  case True
  have "is_digit CHR ''0''" by (simp add: is_digit_def)
  then show ?thesis using True by (simp add: pad2_def dec_small is_digit_dec_digit)
next
  case False
  then show ?thesis using assms by (simp add: pad2_def dec_two is_digit_dec_digit)
qed

lemma stamp_shape:
  assumes "valid_datetime dt"
  shows "\<exists>d t. strftime_stamp dt = d @ ''_'' @ t \<and> length d = 8 \<and> list_all is_digit d
               \<and> length t = 6 \<and> list_all is_digit t"
proof -
  from assms have y: "1000 \<le> dt_year dt" "dt_year dt \<le> 9999"
    and m: "dt_month dt < 100" and d: "dt_day dt < 100"
    and h: "dt_hour dt < 100" and mi: "dt_minute dt < 100" and s: "dt_second dt < 100"
    by (simp_all add: valid_datetime_def)
  let ?d = "dec (dt_year dt) @ pad2 (dt_month dt) @ pad2 (dt_day dt)"
  let ?t = "pad2 (dt_hour dt) @ pad2 (dt_minute dt) @ pad2 (dt_second dt)"
  have 1: "strftime_stamp dt = ?d @ ''_'' @ ?t" by (simp add: strftime_stamp_def)
  have 2: "length ?d = 8 \<and> list_all is_digit ?d"
    using pad2_two [OF m] pad2_two [OF d] by (simp add: dec_four [OF y] is_digit_dec_digit)
  have 3: "length ?t = 6 \<and> list_all is_digit ?t"
    using pad2_two [OF h] pad2_two [OF mi] pad2_two [OF s] by simp
  show ?thesis using 1 2 3 by blast
qed

lemma hex8_shape: "length (take 8 (uuid_hex u)) = 8 \<and> list_all is_lower_hex (take 8 (uuid_hex u))"
  by (simp add: uuid_hex_def list_all_iff is_lower_hex_hex_digit take_map)

lemma new_trace_id_format:
  assumes "valid_datetime dt"
  shows "trace_id_format (new_trace_id dt u)"
proof -
  from stamp_shape [OF assms] obtain d t where
    st: "strftime_stamp dt = d @ ''_'' @ t" and d: "length d = 8" "list_all is_digit d"
    and t: "length t = 6" "list_all is_digit t" by blast
  note h = hex8_shape [of u]
  show ?thesis
    unfolding trace_id_format_def new_trace_id_def st
    using d t h by simp
qed

subsection \<open>finish\<close>

lemma trace_id_store_gaps: "trace_id (store_gaps t s g) = trace_id t"
  by (simp add: store_gaps_def)

lemma status_store_gaps: "status (store_gaps t s g) = status t"
  by (simp add: store_gaps_def)

lemma check_calibration_keeps:
  "trace_id (snd (check_calibration_flags h t)) = trace_id t
   \<and> status (snd (check_calibration_flags h t)) = status t"
  by (simp add: check_calibration_flags_def Let_def trace_id_store_gaps status_store_gaps
           split: option.splits prod.splits sum.splits)

lemma finish_file_keeps:
  "trace_id (snd (finish_file sv (r, t))) = trace_id t
   \<and> status (snd (finish_file sv (r, t))) = status t"
  by (simp add: finish_file_def split: sum.splits)

lemma finish_row_keeps: "snd (finish_row sv (r, t)) = t"
  by (simp add: finish_row_def split: sum.splits)

lemma finish_summary_keeps: "snd (finish_summary sv (r, t)) = t"
  by (simp add: finish_summary_def split: sum.splits option.splits)

lemma finish_calibration_keeps:
  "trace_id (snd (fst (finish_calibration sv (r, t)))) = trace_id t
   \<and> status (snd (fst (finish_calibration sv (r, t)))) = status t"
proof -
  obtain res t' where c: "check_calibration_flags (lookups sv) t = (res, t')"
    by (cases "check_calibration_flags (lookups sv) t") auto
  have k: "trace_id t' = trace_id t \<and> status t' = status t"
    using check_calibration_keeps [of "lookups sv" t] c by simp
  show ?thesis
    using k by (cases res) (simp_all add: finish_calibration_def c Let_def)
qed

lemma finish_row_result:
  "k \<noteq> ''supabase'' \<Longrightarrow> k \<noteq> ''supabase_error'' \<Longrightarrow>
   map_of (fst (finish_row sv (r, t))) k = map_of r k"
  by (simp add: finish_row_def AList.update_conv' split: sum.splits)

lemma finish_summary_result:
  "k \<noteq> ''summary_file'' \<Longrightarrow> map_of (fst (finish_summary sv (r, t))) k = map_of r k"
  by (simp add: finish_summary_def AList.update_conv' split: sum.splits option.splits)

lemma finish_calibration_result:
  assumes "k \<noteq> ''calibration_flags''" and "k \<noteq> ''flagged_for_review''"
  shows "map_of (fst (fst (finish_calibration sv (r, t)))) k = map_of r k"
proof -
  obtain res t' where c: "check_calibration_flags (lookups sv) t = (res, t')"
    by (cases "check_calibration_flags (lookups sv) t") auto
  show ?thesis
    using assms
    by (cases res)
       (simp_all add: finish_calibration_def c Let_def AList.update_conv' split: sum.splits)
qed

lemma finish_status_keeps:
  "trace_id (finish_status now mnow t) = trace_id t
   \<and> status (finish_status now mnow t)
       = (if status t = ''in_progress'' then ''incomplete'' else status t)"
  by (simp add: finish_status_def Trace_mark_incomplete_def stamp_end_def)

lemma finish_unfold:
  assumes "cls t \<noteq> NoOpTraceClass"
  shows "TraceContext_finish sv now mnow verbose t =
           (let t1 = finish_status now mnow t;
                r0 = [(''trace_id'', RStr (trace_id t1)), (''status'', RStr (status t1))];
                x = finish_calibration sv (finish_summary sv (finish_row sv (finish_file sv (r0, t1))))
            in \<lparr> result = fst (fst x), trace_after = snd (fst x), current_after = None,
                 invoked = [WriteTraceFile, WriteTraceMetadata, PrintSummary, WriteSummaryFile,
                            CheckCalibrationFlags] @ snd x \<rparr>)"
  using assms by (simp add: TraceContext_finish_def Let_def split: prod.splits)

lemma trace_id_finish:
  "trace_id (trace_after (TraceContext_finish sv now mnow verbose t)) = trace_id t"
proof (cases "cls t = NoOpTraceClass")
  case True
  then show ?thesis by (simp add: TraceContext_finish_def)
next
  case False
  let ?t1 = "finish_status now mnow t"
  let ?r0 = "[(''trace_id'', RStr (trace_id ?t1)), (''status'', RStr (status ?t1))]"
  obtain r1 t2 where ff: "finish_file sv (?r0, ?t1) = (r1, t2)"
    by (cases "finish_file sv (?r0, ?t1)") auto
  have t2: "trace_id t2 = trace_id t"
    using finish_file_keeps [of sv ?r0 ?t1] ff finish_status_keeps [of now mnow t] by simp
  obtain r2 where fr: "finish_row sv (r1, t2) = (r2, t2)"
    using finish_row_keeps [of sv r1 t2] by (cases "finish_row sv (r1, t2)") auto
  obtain r3 where fs: "finish_summary sv (r2, t2) = (r3, t2)"
    using finish_summary_keeps [of sv r2 t2] by (cases "finish_summary sv (r2, t2)") auto
  have "trace_id (snd (fst (finish_calibration sv (r3, t2)))) = trace_id t"
    using finish_calibration_keeps [of sv r3 t2] t2 by simp
  then show ?thesis
    using finish_unfold [OF False, of sv now mnow verbose] ff fr fs by (simp add: Let_def)
qed

lemma upt_0_8: "[0..<8] = [0, 1, 2, 3, 4, 5, 6, 7 :: nat]"
  by (simp add: upt_conv_Cons)

lemma upt_0_4: "[0..<4] = [0, 1, 2, 3 :: nat]"
  by (simp add: upt_conv_Cons)

lemma upt_0_2: "[0..<2] = [0, 1 :: nat]"
  by (simp add: upt_conv_Cons)

lemma dec_digit_0: "dec_digit 0 = CHR ''0''"
  by (simp add: dec_digit_def)

lemma dec_fixed4:
  assumes "1000 \<le> n" and "n \<le> 9999"
  shows "dec n = fixed_dec 4 n"
  by (simp add: dec_four [OF assms] fixed_dec_def upt_0_4)

lemma pad2_fixed2:
  assumes "n < 100"
  shows "pad2 n = fixed_dec 2 n"
proof (cases "n < 10")
  case True
  then show ?thesis by (simp add: pad2_def dec_small fixed_dec_def upt_0_2 dec_digit_0)
next
  case False
  then show ?thesis using assms by (simp add: pad2_def dec_two fixed_dec_def upt_0_2)
qed

lemma strftime_stamp_fixed:
  assumes "valid_datetime dt"
  shows "strftime_stamp dt =
           fixed_dec 4 (dt_year dt) @ fixed_dec 2 (dt_month dt) @ fixed_dec 2 (dt_day dt)
           @ ''_'' @ fixed_dec 2 (dt_hour dt) @ fixed_dec 2 (dt_minute dt)
           @ fixed_dec 2 (dt_second dt)"
proof -
  from assms have y: "1000 \<le> dt_year dt" "dt_year dt \<le> 9999"
    and m: "dt_month dt < 100" and d: "dt_day dt < 100"
    and h: "dt_hour dt < 100" and mi: "dt_minute dt < 100" and s: "dt_second dt < 100"
    by (simp_all add: valid_datetime_def)
  show ?thesis
    by (simp add: strftime_stamp_def dec_fixed4 [OF y] pad2_fixed2 [OF m] pad2_fixed2 [OF d]
                  pad2_fixed2 [OF h] pad2_fixed2 [OF mi] pad2_fixed2 [OF s])
qed

lemma hex_top_digit:
  assumes "i < 8"
  shows "(n::nat) div 16 ^ (31 - i) = n div 2 ^ 96 div 16 ^ (7 - i)"
proof -
  have e: "31 - i = 24 + (7 - i)" using assms by simp
  have p: "(16::nat) ^ 24 = 2 ^ 96" by simp
  have "(16::nat) ^ (31 - i) = 2 ^ 96 * 16 ^ (7 - i)"
    unfolding e power_add p ..
  then show ?thesis by (simp add: div_mult2_eq)
qed

lemma uuid_hex_fixed: "take 8 (uuid_hex u) = fixed_hex 8 (unat u div 2 ^ 96)"
proof -
  have "map (\<lambda>i. hex_digit (unat u div 16 ^ (31 - i))) [0..<8]
          = map (\<lambda>i. hex_digit (unat u div 2 ^ 96 div 16 ^ (7 - i))) [0..<8]"
    by (rule map_cong) (simp_all add: hex_top_digit)
  then show ?thesis by (simp add: uuid_hex_def fixed_hex_def take_map)
qed

lemma new_trace_id_spec:
  assumes "valid_datetime dt"
  shows "new_trace_id dt u = spec_trace_id dt u"
  by (simp add: new_trace_id_def spec_trace_id_def strftime_stamp_fixed [OF assms] uuid_hex_fixed)

lemma noop_not_format: "\<not> trace_id_format ''noop''"
  by (simp add: trace_id_format_def)

text \<open>
  Claim C9, as amended. Let the clock read a date with a four-digit year. With
  tracing enabled, the identifier of the trace that \<^verbatim>\<open>TraceContext.start\<close> creates
  is the identifier of the specification for that clock reading and that random
  identifier, and has the format \<^verbatim>\<open>trc_\<close>, eight digits, an underscore, six digits,
  an underscore, eight lower-case hexadecimal characters. With tracing disabled,
  \<^verbatim>\<open>start\<close> returns the no-op trace, whose identifier is the fixed string
  \<^verbatim>\<open>noop\<close>, which does not have the format. In both cases no sequence of
  recording calls changes the identifier, and neither does \<^verbatim>\<open>finish\<close>.
\<close>

theorem trace_id_format_and_stability:
  assumes "valid_datetime dt"
  shows "trace_id (fst (TraceContext_start dt u now mnow a))
           = (if arg_enabled a then spec_trace_id dt u else ''noop'')
       \<and> trace_id_format (spec_trace_id dt u)
       \<and> \<not> trace_id_format ''noop''
       \<and> trace_id (do_calls cs (fst (TraceContext_start dt u now mnow a)))
           = trace_id (fst (TraceContext_start dt u now mnow a))
       \<and> trace_id (trace_after (TraceContext_finish sv now' mnow' verbose
                      (do_calls cs (fst (TraceContext_start dt u now mnow a)))))
           = trace_id (fst (TraceContext_start dt u now mnow a))"
proof -
  have i: "trace_id (fst (TraceContext_start dt u now mnow a))
             = (if arg_enabled a then spec_trace_id dt u else ''noop'')"
    by (simp add: TraceContext_start_def Trace_init_def NoOpTrace_init_def Let_def
                  new_trace_id_spec [OF assms])
  have f: "trace_id_format (spec_trace_id dt u)"
    using new_trace_id_format [OF assms, of u] by (simp add: new_trace_id_spec [OF assms])
  show ?thesis
    using i f noop_not_format by (simp add: trace_id_do_calls trace_id_finish)
qed

theorem trace_id_format_and_stability_witness:
  "valid_datetime ex_dt
   \<and> trace_id (fst (TraceContext_start ex_dt 0x1f2e3d4c5b6a79880123456789abcdef
                      ''2026-02-13T09:05:00+00:00'' 7 ex_args))
       = ''trc_20260213_090500_1f2e3d4c''
   \<and> spec_trace_id ex_dt 0x1f2e3d4c5b6a79880123456789abcdef = ''trc_20260213_090500_1f2e3d4c''
   \<and> trace_id_format ''trc_20260213_090500_1f2e3d4c''
   \<and> trace_id (do_calls [(''t1'', 8, StartStage ''intake''), (''t2'', 9, MarkFailed ''boom'')]
                 (fst (TraceContext_start ex_dt 0x1f2e3d4c5b6a79880123456789abcdef
                         ''2026-02-13T09:05:00+00:00'' 7 ex_args)))
       = ''trc_20260213_090500_1f2e3d4c''"
proof -
  have i: "trace_id (fst (TraceContext_start ex_dt 0x1f2e3d4c5b6a79880123456789abcdef
                      ''2026-02-13T09:05:00+00:00'' 7 ex_args))
             = ''trc_20260213_090500_1f2e3d4c''"
    by (simp add: TraceContext_start_def ex_args_def ex_dt_def Trace_init_def Let_def
                  new_trace_id_def strftime_stamp_def pad2_def dec.simps dec_digit_def
                  uuid_hex_def hex_digit_def take_map upt_0_8)
  have v: "valid_datetime ex_dt \<and> arg_enabled ex_args"
    by (simp add: valid_datetime_def ex_dt_def ex_args_def)
  show ?thesis
    using trace_id_format_and_stability
            [of ex_dt "0x1f2e3d4c5b6a79880123456789abcdef" "''2026-02-13T09:05:00+00:00''" 7
                ex_args
                "[(''t1'', 8, StartStage ''intake''), (''t2'', 9, MarkFailed ''boom'')]"
                ex_services "''t3''" 10 False]
          i v
    by simp
qed

text \<open>
  Claim C9 as stated fails: \<^verbatim>\<open>start(enabled=False)\<close> returns a trace whose
  identifier is \<^verbatim>\<open>noop\<close>, which is not of the stated format.
\<close>

theorem disabled_trace_id_counterexample:
  "trace_id (fst (TraceContext_start ex_dt 0x1f2e3d4c5b6a79880123456789abcdef
                    ''2026-02-13T09:05:00+00:00'' 7 ex_args_disabled)) = ''noop''
   \<and> \<not> trace_id_format
         (trace_id (fst (TraceContext_start ex_dt 0x1f2e3d4c5b6a79880123456789abcdef
                           ''2026-02-13T09:05:00+00:00'' 7 ex_args_disabled)))"
proof -
  have i: "trace_id (fst (TraceContext_start ex_dt 0x1f2e3d4c5b6a79880123456789abcdef
                      ''2026-02-13T09:05:00+00:00'' 7 ex_args_disabled)) = ''noop''"
    by (simp add: TraceContext_start_def ex_args_disabled_def ex_args_def NoOpTrace_init_def
                  Trace_init_def)
  show ?thesis unfolding i by (simp add: trace_id_format_def)
qed

text \<open>
  Claim C8. On an object of class \<^verbatim>\<open>_NoOpTrace\<close> every call of the recording API,
  and every sequence of such calls, returns the object unchanged; \<^verbatim>\<open>finish\<close>
  returns the map \<^verbatim>\<open>{"saved": False, "reason": "tracing_disabled"}\<close>, which has no
  \<^verbatim>\<open>file_path\<close>, calls no collaborator, leaves the object unchanged and clears the
  current binding.
\<close>

theorem noop_trace:
  assumes "cls t = NoOpTraceClass"
  shows "do_call c t = t
       \<and> do_calls cs t = t
       \<and> result (TraceContext_finish sv now mnow verbose t)
           = [(''saved'', RBool False), (''reason'', RStr ''tracing_disabled'')]
       \<and> map_of (result (TraceContext_finish sv now mnow verbose t)) ''file_path'' = None
       \<and> invoked (TraceContext_finish sv now mnow verbose t) = []
       \<and> trace_after (TraceContext_finish sv now mnow verbose t) = t
       \<and> current_after (TraceContext_finish sv now mnow verbose t) = None"
  using assms by (simp add: noop_do_call noop_do_calls TraceContext_finish_def)

theorem noop_trace_witness:
  "cls NoOpTrace_init = NoOpTraceClass
   \<and> do_calls [(''t1'', 1, StartStage ''test''),
               (''t2'', 2, EndStage ''test'' (Some [(''x'', PInt 1)]) (Some ''err'')),
               (''t3'', 3, Record ''test'' ''decision'' [(''what'', PStr ''x'')]),
               (''t4'', 4, RecordEvidence ''test'' [(''count'', PInt 5)]),
               (''t5'', 5, RecordPrompts ''test'' [(''prompt'', ''hello'')]),
               (''t6'', 6, RecordIteration [(''iteration'', PInt 1), (''passed'', PBool False)]),
               (''t7'', 7, SetOutputs [(''path'', PStr ''test'')]),
               (''t8'', 8, MarkComplete),
               (''t9'', 9, MarkFailed ''error''),
               (''t10'', 10, MarkIncomplete)] NoOpTrace_init = NoOpTrace_init
   \<and> result (TraceContext_finish ex_services ''t11'' 11 False NoOpTrace_init)
       = [(''saved'', RBool False), (''reason'', RStr ''tracing_disabled'')]"
  using noop_trace
          [of NoOpTrace_init "(''t1'', 1, StartStage ''test'')"
              "[(''t1'', 1, StartStage ''test''),
                (''t2'', 2, EndStage ''test'' (Some [(''x'', PInt 1)]) (Some ''err'')),
                (''t3'', 3, Record ''test'' ''decision'' [(''what'', PStr ''x'')]),
                (''t4'', 4, RecordEvidence ''test'' [(''count'', PInt 5)]),
                (''t5'', 5, RecordPrompts ''test'' [(''prompt'', ''hello'')]),
                (''t6'', 6, RecordIteration [(''iteration'', PInt 1), (''passed'', PBool False)]),
                (''t7'', 7, SetOutputs [(''path'', PStr ''test'')]),
                (''t8'', 8, MarkComplete),
                (''t9'', 9, MarkFailed ''error''),
                (''t10'', 10, MarkIncomplete)]"
              ex_services "''t11''" 11 False]
  by (simp add: NoOpTrace_init_def Trace_init_def)

text \<open>
  Claim C5. For a trace that is not the no-op variant, when the writer of the trace
  file raises an exception \<open>e\<close>: the result map holds \<^verbatim>\<open>str(e)\<close> under
  \<^verbatim>\<open>file_error\<close> and has no \<^verbatim>\<open>file_path\<close>; the row writer is still invoked, and its
  own outcome is recorded under \<^verbatim>\<open>supabase\<close> or \<^verbatim>\<open>supabase_error\<close>; the current
  binding is cleared; the result map holds the trace identifier and the final
  status, which is \<^verbatim>\<open>incomplete\<close> for a trace that was still in progress.
\<close>

theorem finish_file_write_fails:
  assumes "cls t \<noteq> NoOpTraceClass"
    and "write_trace_file sv (finish_status now mnow t) = Inl e"
  shows "map_of (result (TraceContext_finish sv now mnow verbose t)) ''file_error''
           = Some (RStr (exn_msg e))
       \<and> map_of (result (TraceContext_finish sv now mnow verbose t)) ''file_path'' = None
       \<and> WriteTraceMetadata \<in> set (invoked (TraceContext_finish sv now mnow verbose t))
       \<and> (case write_trace_metadata sv (finish_status now mnow t) of
            Inr u \<Rightarrow> map_of (result (TraceContext_finish sv now mnow verbose t)) ''supabase''
                       = Some (RStr ''saved'')
          | Inl e' \<Rightarrow> map_of (result (TraceContext_finish sv now mnow verbose t)) ''supabase_error''
                       = Some (RStr (exn_msg e')))
       \<and> current_after (TraceContext_finish sv now mnow verbose t) = None
       \<and> map_of (result (TraceContext_finish sv now mnow verbose t)) ''trace_id''
           = Some (RStr (trace_id t))
       \<and> map_of (result (TraceContext_finish sv now mnow verbose t)) ''status''
           = Some (RStr (status (trace_after (TraceContext_finish sv now mnow verbose t))))
       \<and> status (trace_after (TraceContext_finish sv now mnow verbose t))
           = (if status t = ''in_progress'' then ''incomplete'' else status t)"
proof -
  let ?t1 = "finish_status now mnow t"
  let ?r0 = "[(''trace_id'', RStr (trace_id ?t1)), (''status'', RStr (status ?t1))]"
  let ?F = "TraceContext_finish sv now mnow verbose t"
  have ff: "finish_file sv (?r0, ?t1) = (AList.update ''file_error'' (RStr (exn_msg e)) ?r0, ?t1)"
    using assms(2) by (simp add: finish_file_def)
  let ?r1 = "AList.update ''file_error'' (RStr (exn_msg e)) ?r0"
  obtain r2 where fr: "finish_row sv (?r1, ?t1) = (r2, ?t1)"
    using finish_row_keeps [of sv ?r1 ?t1] by (cases "finish_row sv (?r1, ?t1)") auto
  obtain r3 where fs: "finish_summary sv (r2, ?t1) = (r3, ?t1)"
    using finish_summary_keeps [of sv r2 ?t1] by (cases "finish_summary sv (r2, ?t1)") auto
  obtain r4 t4 later where fc: "finish_calibration sv (r3, ?t1) = ((r4, t4), later)"
    by (cases "finish_calibration sv (r3, ?t1)") auto
  have F: "?F = \<lparr> result = r4, trace_after = t4, current_after = None,
                  invoked = [WriteTraceFile, WriteTraceMetadata, PrintSummary, WriteSummaryFile,
                             CheckCalibrationFlags] @ later \<rparr>"
    using finish_unfold [OF assms(1), of sv now mnow verbose] ff fr fs fc
    by (simp add: Let_def)
  have k4: "\<And>k. k \<noteq> ''calibration_flags'' \<Longrightarrow> k \<noteq> ''flagged_for_review'' \<Longrightarrow>
              map_of r4 k = map_of r3 k"
    using finish_calibration_result [of _ sv r3 ?t1] fc by simp
  have k3: "\<And>k. k \<noteq> ''summary_file'' \<Longrightarrow> map_of r3 k = map_of r2 k"
    using finish_summary_result [of _ sv r2 ?t1] fs by simp
  have k2: "\<And>k. k \<noteq> ''supabase'' \<Longrightarrow> k \<noteq> ''supabase_error'' \<Longrightarrow> map_of r2 k = map_of ?r1 k"
    using finish_row_result [of _ sv ?r1 ?t1] fr by simp
  have t4: "trace_id t4 = trace_id ?t1 \<and> status t4 = status ?t1"
    using finish_calibration_keeps [of sv r3 ?t1] fc by simp
  note t1 = finish_status_keeps [of now mnow t]
  have a: "map_of r4 ''file_error'' = Some (RStr (exn_msg e))"
    by (simp add: k4 k3 k2 AList.update_conv')
  have b: "map_of r4 ''file_path'' = None"
    by (simp add: k4 k3 k2 AList.update_conv')
  have c: "map_of r4 ''trace_id'' = Some (RStr (trace_id t))"
    using t1 by (simp add: k4 k3 k2 AList.update_conv')
  have d: "map_of r4 ''status'' = Some (RStr (status t4))"
    using t4 by (simp add: k4 k3 k2 AList.update_conv')
  have row: "(case write_trace_metadata sv ?t1 of
                Inr u \<Rightarrow> map_of r4 ''supabase'' = Some (RStr ''saved'')
              | Inl e' \<Rightarrow> map_of r4 ''supabase_error'' = Some (RStr (exn_msg e')))"
    using fr by (auto simp: k4 k3 finish_row_def AList.update_conv' split: sum.splits)
  show ?thesis
    unfolding F using a b c d row t4 t1 by (auto split: sum.splits)
qed

theorem finish_file_write_fails_witness:
  "cls (Trace_init ''trc_test'') \<noteq> NoOpTraceClass
   \<and> write_trace_file ex_services (finish_status ''t9'' 9 (Trace_init ''trc_test''))
       = Inl (Exn ''OSError'' ''disk full'')
   \<and> map_of (result (TraceContext_finish ex_services ''t9'' 9 False (Trace_init ''trc_test'')))
       ''file_error'' = Some (RStr ''disk full'')
   \<and> map_of (result (TraceContext_finish ex_services ''t9'' 9 False (Trace_init ''trc_test'')))
       ''supabase'' = Some (RStr ''saved'')
   \<and> map_of (result (TraceContext_finish ex_services ''t9'' 9 False (Trace_init ''trc_test'')))
       ''trace_id'' = Some (RStr ''trc_test'')
   \<and> map_of (result (TraceContext_finish ex_services ''t9'' 9 False (Trace_init ''trc_test'')))
       ''status'' = Some (RStr ''incomplete'')
   \<and> current_after (TraceContext_finish ex_services ''t9'' 9 False (Trace_init ''trc_test'')) = None"
  using finish_file_write_fails
          [of "Trace_init ''trc_test''" ex_services "''t9''" 9 "Exn ''OSError'' ''disk full''" False]
  by (simp add: ex_services_def Trace_init_def)


section \<open>Properties of floats\<close>

lemma round_double_neg: "round_double (- x) = fneg (round_double x)"
  by (simp add: round_double_def)

lemma round_double_not_NaN: "round_double x \<noteq> NaN"
  by (simp add: round_double_def)

lemma fsub_swap: "fsub y x = fneg (fsub x y)"
proof (cases x; cases y)
  fix a b assume "x = Fin a" "y = Fin b"
  then show ?thesis using round_double_neg [of "a - b"] by simp
qed simp_all

lemma fsub_Fin_not_NaN: "fsub (Fin a) (Fin b) \<noteq> NaN"
  by (simp add: round_double_not_NaN)

lemma fneg_NaN_iff: "fneg x = NaN \<longleftrightarrow> x = NaN"
  by (cases x) simp_all

text \<open>
  The subtractions of the examples, computed with the rounding: \<^verbatim>\<open>2.8 - 2.0\<close> is
  \<^verbatim>\<open>0.7999999999999998\<close>, and \<^verbatim>\<open>0.8 - 0.3\<close> is \<^verbatim>\<open>0.5\<close> although the exact
  difference of the two floats is larger than one half.
\<close>

lemma fsub_28_20:
  "fsub (Fin (3152519739159347 / 1125899906842624)) (Fin 2)
     = Fin (900719925474099 / 1125899906842624)"
  by code_simp

lemma fsub_20_28:
  "fsub (Fin 2) (Fin (3152519739159347 / 1125899906842624))
     = Fin (- (900719925474099 / 1125899906842624))"
  by code_simp

lemma fsub_08_03:
  "fsub (Fin (3602879701896397 / 4503599627370496)) (Fin (5404319552844595 / 18014398509481984))
     = Fin (1 / 2)"
  by code_simp

lemma exact_08_03:
  "(1 / 2 :: rat) < 3602879701896397 / 4503599627370496 - 5404319552844595 / 18014398509481984"
  by simp

lemma disparity_rounds:
  "check_disparity IntentDisparity (intent_avg_score ex_history_close) ex_history_close
     (Some ''validating'') [] = []"
  by (simp add: check_disparity_def ex_history_close_def fsub_08_03 del: fsub.simps)


section \<open>Properties of compare\<close>

lemma distinct_gap_set: "distinct (gap_set row)"
  by (simp add: gap_set_def split: option.splits)

lemma set_gap_set: "set (gap_set row) = gaps_of row"
  by (simp add: gap_set_def gaps_of_def split: option.splits)

lemma sorted_inter_commute:
  assumes "distinct xs" and "distinct ys"
  shows "sorted_inter xs ys = sorted_inter ys xs"
proof (rule sorted_distinct_set_unique)
  show "sorted (sorted_inter xs ys)" by (simp add: sorted_inter_def)
  show "sorted (sorted_inter ys xs)" by (simp add: sorted_inter_def)
  show "distinct (sorted_inter xs ys)" using assms(1) by (simp add: sorted_inter_def)
  show "distinct (sorted_inter ys xs)" using assms(2) by (simp add: sorted_inter_def)
  show "set (sorted_inter xs ys) = set (sorted_inter ys xs)"
    by (auto simp: sorted_inter_def)
qed

lemma negated_delta_swap: "negated_delta (delta x y) (delta y x)"
proof (cases x; cases y)
  fix a b assume xy: "x = Some a" "y = Some b"
  have s: "fsub a b = fneg (fsub b a)" by (rule fsub_swap)
  show ?thesis
    unfolding xy
    by (simp add: negated_delta_def delta_def float_eq_def s fneg_NaN_iff)
qed (simp_all add: negated_delta_def delta_def)

lemma number_delta_finite:
  assumes "finite_value x" and "finite_value y"
  shows "number_delta (delta x y)"
proof -
  from assms obtain a b where "x = Some (Fin a)" "y = Some (Fin b)"
    by (auto simp: finite_value_def split: option.splits pyfloat.splits)
  then show ?thesis by (simp add: number_delta_def delta_def round_double_not_NaN)
qed

text \<open>
  Claim C7, as amended. When both identifiers have a stored row, \<^verbatim>\<open>compare(a, b)\<close>
  and \<^verbatim>\<open>compare(b, a)\<close> both return a comparison. Each delta of \<^verbatim>\<open>compare(a, b)\<close>
  (quality, duration, cost) is the float difference B - A of the two stored
  values, and null when either value is null. The same delta of \<^verbatim>\<open>compare(b, a)\<close>
  is its negation: null when it is null, NaN when it is NaN, and equal to its
  negation under \<^verbatim>\<open>==\<close> otherwise; when both stored values are finite the
  delta is a number, so the equality holds. The a-only, b-only and both lists of
  \<^verbatim>\<open>compare(a, b)\<close> hold the set differences and the intersection of the two gap
  sets; the a-only list of \<^verbatim>\<open>compare(b, a)\<close> is the b-only list of
  \<^verbatim>\<open>compare(a, b)\<close> and the other way round, and the both list is the same.
\<close>

theorem compare_antisymmetric:
  assumes "db a = Inr (Some ra)" and "db b = Inr (Some rb)"
  shows "\<exists>x y. compare db a b = Inr (Compared x) \<and> compare db b a = Inr (Compared y)
          \<and> quality_delta x =
              (case (overall_quality_score ra, overall_quality_score rb) of
                 (Some sa, Some sb) \<Rightarrow> Some (fsub sb sa) | _ \<Rightarrow> None)
          \<and> duration_delta x =
              (case (row_duration_seconds ra, row_duration_seconds rb) of
                 (Some ta, Some tb) \<Rightarrow> Some (fsub tb ta) | _ \<Rightarrow> None)
          \<and> cost_delta x =
              (case (synthesis_cost_usd ra, synthesis_cost_usd rb) of
                 (Some ca, Some cb) \<Rightarrow> Some (fsub cb ca) | _ \<Rightarrow> None)
          \<and> negated_delta (quality_delta x) (quality_delta y)
          \<and> negated_delta (duration_delta x) (duration_delta y)
          \<and> negated_delta (cost_delta x) (cost_delta y)
          \<and> (finite_value (overall_quality_score ra) \<and> finite_value (overall_quality_score rb)
               \<longrightarrow> number_delta (quality_delta x))
          \<and> (finite_value (row_duration_seconds ra) \<and> finite_value (row_duration_seconds rb)
               \<longrightarrow> number_delta (duration_delta x))
          \<and> (finite_value (synthesis_cost_usd ra) \<and> finite_value (synthesis_cost_usd rb)
               \<longrightarrow> number_delta (cost_delta x))
          \<and> set (gaps_a_only x) = gaps_of ra - gaps_of rb
          \<and> set (gaps_b_only x) = gaps_of rb - gaps_of ra
          \<and> set (gaps_both x) = gaps_of ra \<inter> gaps_of rb
          \<and> gaps_a_only y = gaps_b_only x
          \<and> gaps_b_only y = gaps_a_only x
          \<and> gaps_both y = gaps_both x"
proof -
  let ?x = "\<lparr> trace_a = a, trace_b = b,
               quality_delta = delta (overall_quality_score ra) (overall_quality_score rb),
               duration_delta = delta (row_duration_seconds ra) (row_duration_seconds rb),
               cost_delta = delta (synthesis_cost_usd ra) (synthesis_cost_usd rb),
               gaps_a_only = sorted_diff (gap_set ra) (gap_set rb),
               gaps_b_only = sorted_diff (gap_set rb) (gap_set ra),
               gaps_both = sorted_inter (gap_set ra) (gap_set rb) \<rparr>"
  let ?y = "\<lparr> trace_a = b, trace_b = a,
               quality_delta = delta (overall_quality_score rb) (overall_quality_score ra),
               duration_delta = delta (row_duration_seconds rb) (row_duration_seconds ra),
               cost_delta = delta (synthesis_cost_usd rb) (synthesis_cost_usd ra),
               gaps_a_only = sorted_diff (gap_set rb) (gap_set ra),
               gaps_b_only = sorted_diff (gap_set ra) (gap_set rb),
               gaps_both = sorted_inter (gap_set rb) (gap_set ra) \<rparr>"
  have x: "compare db a b = Inr (Compared ?x)" using assms by (simp add: compare_def)
  have y: "compare db b a = Inr (Compared ?y)" using assms by (simp add: compare_def)
  have pins: "quality_delta ?x =
                (case (overall_quality_score ra, overall_quality_score rb) of
                   (Some sa, Some sb) \<Rightarrow> Some (fsub sb sa) | _ \<Rightarrow> None)"
             "duration_delta ?x =
                (case (row_duration_seconds ra, row_duration_seconds rb) of
                   (Some ta, Some tb) \<Rightarrow> Some (fsub tb ta) | _ \<Rightarrow> None)"
             "cost_delta ?x =
                (case (synthesis_cost_usd ra, synthesis_cost_usd rb) of
                   (Some ca, Some cb) \<Rightarrow> Some (fsub cb ca) | _ \<Rightarrow> None)"
    by (simp_all add: delta_def)
  have negs: "negated_delta (quality_delta ?x) (quality_delta ?y)"
             "negated_delta (duration_delta ?x) (duration_delta ?y)"
             "negated_delta (cost_delta ?x) (cost_delta ?y)"
    by (simp_all add: negated_delta_swap)
  have nums: "finite_value (overall_quality_score ra) \<and> finite_value (overall_quality_score rb)
                \<longrightarrow> number_delta (quality_delta ?x)"
             "finite_value (row_duration_seconds ra) \<and> finite_value (row_duration_seconds rb)
                \<longrightarrow> number_delta (duration_delta ?x)"
             "finite_value (synthesis_cost_usd ra) \<and> finite_value (synthesis_cost_usd rb)
                \<longrightarrow> number_delta (cost_delta ?x)"
    by (simp_all add: number_delta_finite)
  have sets: "set (gaps_a_only ?x) = gaps_of ra - gaps_of rb"
             "set (gaps_b_only ?x) = gaps_of rb - gaps_of ra"
             "set (gaps_both ?x) = gaps_of ra \<inter> gaps_of rb"
    by (auto simp: sorted_diff_def sorted_inter_def set_gap_set)
  have swaps: "gaps_a_only ?y = gaps_b_only ?x" "gaps_b_only ?y = gaps_a_only ?x"
              "gaps_both ?y = gaps_both ?x"
    using sorted_inter_commute [OF distinct_gap_set distinct_gap_set, of rb ra] by simp_all
  show ?thesis
    using x y pins negs nums sets swaps by blast
qed

theorem compare_antisymmetric_witness:
  "ex_db ''trc_a'' = Inr (Some ex_row_a) \<and> ex_db ''trc_b'' = Inr (Some ex_row_b)
   \<and> finite_value (overall_quality_score ex_row_a)
   \<and> finite_value (overall_quality_score ex_row_b)
   \<and> quality_delta_of (compare ex_db ''trc_a'' ''trc_b'')
       = Some (Fin (900719925474099 / 1125899906842624))
   \<and> quality_delta_of (compare ex_db ''trc_b'' ''trc_a'')
       = Some (Fin (- (900719925474099 / 1125899906842624)))
   \<and> negated_delta (quality_delta_of (compare ex_db ''trc_a'' ''trc_b''))
        (quality_delta_of (compare ex_db ''trc_b'' ''trc_a''))"
proof -
  have a: "ex_db ''trc_a'' = Inr (Some ex_row_a)" and b: "ex_db ''trc_b'' = Inr (Some ex_row_b)"
    by (simp_all add: ex_db_def)
  have f: "finite_value (overall_quality_score ex_row_a)"
          "finite_value (overall_quality_score ex_row_b)"
    by (simp_all add: finite_value_def ex_row_a_def ex_row_b_def)
  have q1: "quality_delta_of (compare ex_db ''trc_a'' ''trc_b'')
              = Some (Fin (900719925474099 / 1125899906842624))"
    by (simp add: compare_def a b quality_delta_of_def delta_def ex_row_a_def ex_row_b_def
                  fsub_28_20 del: fsub.simps)
  have q2: "quality_delta_of (compare ex_db ''trc_b'' ''trc_a'')
              = Some (Fin (- (900719925474099 / 1125899906842624)))"
    by (simp add: compare_def a b quality_delta_of_def delta_def ex_row_a_def ex_row_b_def
                  fsub_20_28 del: fsub.simps)
  from compare_antisymmetric [of ex_db "''trc_a''" ex_row_a "''trc_b''" ex_row_b, OF a b]
  obtain x y where
    xy: "compare ex_db ''trc_a'' ''trc_b'' = Inr (Compared x)"
        "compare ex_db ''trc_b'' ''trc_a'' = Inr (Compared y)"
        "negated_delta (quality_delta x) (quality_delta y)"
    by blast
  have n: "negated_delta (quality_delta_of (compare ex_db ''trc_a'' ''trc_b''))
             (quality_delta_of (compare ex_db ''trc_b'' ''trc_a''))"
    using xy by (simp add: quality_delta_of_def)
  show ?thesis using a b f q1 q2 n by simp
qed

text \<open>
  Claim C7 as stated fails: the rows \<^verbatim>\<open>trc_nan\<close> and \<^verbatim>\<open>trc_a\<close> both have a non-null
  quality score, NaN and 2.0. The quality delta is NaN in both directions, and
  NaN is not equal to the negation of NaN.
\<close>

theorem compare_nan_counterexample:
  "overall_quality_score ex_row_nan = Some NaN
   \<and> overall_quality_score ex_row_a = Some (Fin 2)
   \<and> quality_delta_of (compare ex_db ''trc_nan'' ''trc_a'') = Some NaN
   \<and> quality_delta_of (compare ex_db ''trc_a'' ''trc_nan'') = Some NaN
   \<and> \<not> float_eq NaN (fneg NaN)"
  by (simp add: ex_db_def compare_def ex_row_a_def ex_row_nan_def delta_def
                quality_delta_of_def float_eq_def)


section \<open>The calibration analyzer on example traces\<close>

text \<open>
  Claim C2 does not hold of the code. The outputs of the quality-gate stage of the
  example trace hold the gap list \<^verbatim>\<open>["META-12"]\<close> and the score \<^verbatim>\<open>0\<close> for
  \<^verbatim>\<open>MR-1\<close>. The call returns normally with no flag, and afterwards the gap list
  stored in the trace is \<^verbatim>\<open>["META-12", "MR-1"]\<close>: the trace was changed.
\<close>

theorem check_calibration_flags_mutates:
  "map_option (\<lambda>s. dict_get (stage_outputs s) ''gap_principles'')
     (map_of (stages (ex_qg_trace ex_gap_outputs)) ''quality_gate'')
     = Some (PList [PStr ''META-12''])
   \<and> fst (check_calibration_flags ex_history (ex_qg_trace ex_gap_outputs)) = Inr []
   \<and> map_option (\<lambda>s. dict_get (stage_outputs s) ''gap_principles'')
       (map_of (stages (snd (check_calibration_flags ex_history (ex_qg_trace ex_gap_outputs))))
          ''quality_gate'')
       = Some (PList [PStr ''META-12'', PStr ''MR-1''])
   \<and> snd (check_calibration_flags ex_history (ex_qg_trace ex_gap_outputs))
       \<noteq> ex_qg_trace ex_gap_outputs"
proof -
  have t: "map_of (stages (ex_qg_trace ex_gap_outputs)) ''quality_gate''
             = Some \<lparr> stage_name = ''quality_gate'',
                      stage_started_at = Some ''2026-02-13T12:00:00+00:00'',
                      stage_completed_at = Some ''2026-02-13T12:00:01+00:00'',
                      stage_duration_seconds = Some 1, stage_decisions = [],
                      stage_outputs = ex_gap_outputs, stage_evidence = [],
                      stage_prompts = [], stage_error = None \<rparr>"
    by (simp add: ex_qg_trace_def ex_gap_outputs_def Trace_init_def do_calls_def do_call_def
                  Trace_defs StageTrace_init_def Let_def)
  have before: "map_option (\<lambda>s. dict_get (stage_outputs s) ''gap_principles'')
                  (map_of (stages (ex_qg_trace ex_gap_outputs)) ''quality_gate'')
                  = Some (PList [PStr ''META-12''])"
    by (simp add: t) (simp add: ex_gap_outputs_def dict_get_def)
  have scan: "scan_scores (PDict [(''META-1'', PInt 3), (''MR-1'', PInt 0)]) (PList [PStr ''META-12''])
                = (None, PList [PStr ''META-12'', PStr ''MR-1''])"
    by (simp add: scan_scores_def py_lt2_def add_gap_def py_in_def py_append_def)
  have res: "check_calibration_flags ex_history (ex_qg_trace ex_gap_outputs)
               = (Inr [],
                  store_gaps (ex_qg_trace ex_gap_outputs)
                    \<lparr> stage_name = ''quality_gate'',
                      stage_started_at = Some ''2026-02-13T12:00:00+00:00'',
                      stage_completed_at = Some ''2026-02-13T12:00:01+00:00'',
                      stage_duration_seconds = Some 1, stage_decisions = [],
                      stage_outputs = ex_gap_outputs, stage_evidence = [],
                      stage_prompts = [], stage_error = None \<rparr>
                    (PList [PStr ''META-12'', PStr ''MR-1'']))"
    unfolding check_calibration_flags_def t
    by (simp add: ex_gap_outputs_def dict_get_def scan Let_def py_iter_def ex_history_def
                  check_disparity_def check_regression_def
                  ex_qg_trace_def Trace_init_def do_calls_def do_call_def Trace_defs)
  have after: "map_option (\<lambda>s. dict_get (stage_outputs s) ''gap_principles'')
                 (map_of (stages (snd (check_calibration_flags ex_history (ex_qg_trace ex_gap_outputs))))
                    ''quality_gate'')
                 = Some (PList [PStr ''META-12'', PStr ''MR-1''])"
    unfolding res
    by (simp add: store_gaps_def AList.update_conv' ex_gap_outputs_def dict_get_def)
  have "snd (check_calibration_flags ex_history (ex_qg_trace ex_gap_outputs))
          \<noteq> ex_qg_trace ex_gap_outputs"
    using before after by auto
  then show ?thesis using before after res by simp
qed

text \<open>
  Claim C3 does not hold of the code. The outputs of the quality-gate stage of the
  example trace hold a flat score mapping with the score \<^verbatim>\<open>"n/a"\<close>; every lookup
  of the example history succeeds. The comparison \<^verbatim>\<open>score < 2\<close> raises
  \<^verbatim>\<open>TypeError\<close>, outside every \<^verbatim>\<open>try\<close>, and the exception leaves the function.
\<close>

theorem check_calibration_flags_raises:
  "fst (check_calibration_flags ex_history (ex_qg_trace ex_text_score_outputs))
     = Inl (Exn ''TypeError'' ''unsupported operand'')"
proof -
  have t: "map_of (stages (ex_qg_trace ex_text_score_outputs)) ''quality_gate''
             = Some \<lparr> stage_name = ''quality_gate'',
                      stage_started_at = Some ''2026-02-13T12:00:00+00:00'',
                      stage_completed_at = Some ''2026-02-13T12:00:01+00:00'',
                      stage_duration_seconds = Some 1, stage_decisions = [],
                      stage_outputs = ex_text_score_outputs, stage_evidence = [],
                      stage_prompts = [], stage_error = None \<rparr>"
    by (simp add: ex_qg_trace_def ex_text_score_outputs_def Trace_init_def do_calls_def do_call_def
                  Trace_defs StageTrace_init_def Let_def)
  have scan: "scan_scores (PDict [(''META-1'', PInt 3), (''META-12'', PStr ''n/a'')]) (PList [])
                = (Some TypeError, PList [])"
    by (simp add: scan_scores_def py_lt2_def)
  show ?thesis
    unfolding check_calibration_flags_def t
    by (simp add: ex_text_score_outputs_def dict_get_def scan Let_def TypeError_def)
qed

end
